theory Spec2Isabelle
  imports Complex_Main
begin

chapter \<open>VocalBridgeOps: the message pipeline, the provider orchestrator and billing\<close>

text \<open>
  A shallow embedding of the backend of the repository: the pricing table
  (\<^verbatim>\<open>config/pricing.ts\<close>), the provider orchestrator
  (\<^verbatim>\<open>providers/orchestrator.ts\<close>), the tool registry
  (\<^verbatim>\<open>tools/registry.ts\<close>), the sequence generator
  (\<^verbatim>\<open>get_next_message_sequence\<close>) and the message service
  (\<^verbatim>\<open>sendMessage\<close>, \<^verbatim>\<open>createUsageEvent\<close> and their helpers).
  The definitions come first, the properties follow.
\<close>

section \<open>Pricing (config/pricing.ts)\<close>

datatype ProviderType = VENDOR_A | VENDOR_B

subsection \<open>JavaScript numbers\<close>

text \<open>
  \<^verbatim>\<open>calculateCost\<close> computes with JavaScript numbers, that is IEEE 754
  binary64 values under round-to-nearest, ties-to-even. A finite double is modelled by a
  pair \<open>(m, e)\<close> of integers that stands for \<open>m * 2 ^ e\<close>. Every operation computes
  the exact rational result and rounds it to 53 significant bits. Overflow to infinity and
  gradual underflow are left out: they need magnitudes outside \<open>2 ^ -1022 .. 2 ^ 1024\<close>,
  which token counts (32-bit database integers) and the prices below never reach.
\<close>

type_synonym double = "int \<times> int"

text \<open>The number of binary digits of a natural number.\<close>

fun bitlen :: "nat \<Rightarrow> nat" where
  "bitlen n = (if n = 0 then 0 else Suc (bitlen (n div 2)))"

declare bitlen.simps [simp del]

text \<open>For \<open>a, q > 0\<close>: the integer \<open>e\<close> with \<open>2 ^ e \<le> a / q < 2 ^ (e + 1)\<close>.\<close>

definition binaryExponent :: "int \<Rightarrow> int \<Rightarrow> int" where
  "binaryExponent a q =
     (if q * 2 ^ nat (int (bitlen (nat a)) - int (bitlen (nat q)))
           \<le> a * 2 ^ nat (int (bitlen (nat q)) - int (bitlen (nat a)))
      then int (bitlen (nat a)) - int (bitlen (nat q))
      else int (bitlen (nat a)) - int (bitlen (nat q)) - 1)"

text \<open>The integer nearest to \<open>P / Q\<close>, a tie going to the even neighbour.\<close>

definition roundHalfEven :: "int \<Rightarrow> int \<Rightarrow> int" where
  "roundHalfEven P Q =
     (if 2 * (P mod Q) < Q then P div Q
      else if Q < 2 * (P mod Q) then P div Q + 1
      else if even (P div Q) then P div Q else P div Q + 1)"

text \<open>\<open>a / q\<close> with binary exponent \<open>e\<close>, rounded to a 53-bit significand.\<close>

definition roundAt :: "int \<Rightarrow> int \<Rightarrow> int \<Rightarrow> double" where
  "roundAt a q e = (roundHalfEven (a * 2 ^ nat (52 - e)) (q * 2 ^ nat (e - 52)), e - 52)"

fun withSign :: "int \<Rightarrow> double \<Rightarrow> double" where
  "withSign s (m, e) = (s * m, e)"

text \<open>The double nearest to the rational \<open>p / q\<close>, for \<open>q > 0\<close>.\<close>

definition roundQuotient :: "int \<Rightarrow> int \<Rightarrow> double" where
  "roundQuotient p q = (if p = 0 then (0, 0) else
     withSign (sgn p) (roundAt \<bar>p\<bar> q (binaryExponent \<bar>p\<bar> q)))"

text \<open>A decimal literal such as \<^verbatim>\<open>0.002\<close> is the double nearest to \<open>2 / 1000\<close>.\<close>

definition numberLiteral :: "int \<Rightarrow> int \<Rightarrow> double" where
  "numberLiteral digits scale = roundQuotient digits scale"

definition fromInt :: "int \<Rightarrow> double" where
  "fromInt n = roundQuotient n 1"

fun shiftExponent :: "int \<Rightarrow> double \<Rightarrow> double" where
  "shiftExponent k (m, e) = (m, e + k)"

text \<open>The operators \<^verbatim>\<open>/\<close>, \<^verbatim>\<open>*\<close> and \<^verbatim>\<open>+\<close> on doubles (divisor not zero).\<close>

fun fdiv :: "double \<Rightarrow> double \<Rightarrow> double" where
  "fdiv (m1, e1) (m2, e2) =
     roundQuotient (sgn m2 * m1 * 2 ^ nat (e1 - e2)) (\<bar>m2\<bar> * 2 ^ nat (e2 - e1))"

fun fmul :: "double \<Rightarrow> double \<Rightarrow> double" where
  "fmul (m1, e1) (m2, e2) = shiftExponent (e1 + e2) (roundQuotient (m1 * m2) 1)"

fun fadd :: "double \<Rightarrow> double \<Rightarrow> double" where
  "fadd (m1, e1) (m2, e2) =
     shiftExponent (min e1 e2)
       (roundQuotient (m1 * 2 ^ nat (e1 - min e1 e2) + m2 * 2 ^ nat (e2 - min e1 e2)) 1)"

fun Math_ceil :: "double \<Rightarrow> int" where
  "Math_ceil (m, e) = (if 0 \<le> e then m * 2 ^ nat e else - ((- m) div 2 ^ nat (- e)))"

subsection \<open>The pricing table and the cost of a call\<close>

record ProviderPricing =
  inputPricePerKTokens :: double
  outputPricePerKTokens :: double

fun PRICING :: "ProviderType \<Rightarrow> ProviderPricing" where
  "PRICING VENDOR_A = \<lparr> inputPricePerKTokens = numberLiteral 2 1000,
                         outputPricePerKTokens = numberLiteral 4 1000 \<rparr>"
| "PRICING VENDOR_B = \<lparr> inputPricePerKTokens = numberLiteral 3 1000,
                         outputPricePerKTokens = numberLiteral 6 1000 \<rparr>"

definition calculateCost :: "ProviderType \<Rightarrow> int \<Rightarrow> int \<Rightarrow> int" where
  "calculateCost provider tokensIn tokensOut =
     (let pricing = PRICING provider;
          inputCost = fmul (fdiv (fromInt tokensIn) (fromInt 1000)) (inputPricePerKTokens pricing);
          outputCost = fmul (fdiv (fromInt tokensOut) (fromInt 1000)) (outputPricePerKTokens pricing)
      in Math_ceil (fmul (fadd inputCost outputCost) (fromInt 100)))"

definition getPricingSnapshot :: "ProviderType \<Rightarrow> ProviderPricing" where
  "getPricingSnapshot provider = PRICING provider"

text \<open>
  The formula of the documentation, over the rationals: dollars per thousand tokens
  \<open>0.002, 0.004\<close> for \<open>VENDOR_A\<close> and \<open>0.003, 0.006\<close> for \<open>VENDOR_B\<close>, times one hundred,
  rounded up. It is what \<^const>\<open>calculateCost\<close> is compared with.
\<close>

fun exactPrices :: "ProviderType \<Rightarrow> rat \<times> rat" where
  "exactPrices VENDOR_A = (2 / 1000, 4 / 1000)"
| "exactPrices VENDOR_B = (3 / 1000, 6 / 1000)"

definition exactCostCents :: "ProviderType \<Rightarrow> int \<Rightarrow> int \<Rightarrow> int" where
  "exactCostCents provider tokensIn tokensOut =
     \<lceil>(of_int tokensIn / 1000 * fst (exactPrices provider)
        + of_int tokensOut / 1000 * snd (exactPrices provider)) * 100\<rceil>"


section \<open>Configuration (config/index.ts)\<close>

record RetryConfig =
  maxAttempts :: nat
  initialDelayMs :: nat
  maxDelayMs :: nat
  backoffMultiplier :: nat

record SessionConfig =
  maxHistoryMessages :: nat
  lockTimeoutMs :: nat

definition config_retry :: RetryConfig where
  "config_retry = \<lparr> maxAttempts = 3, initialDelayMs = 100, maxDelayMs = 5000,
                      backoffMultiplier = 2 \<rparr>"

definition config_session :: SessionConfig where
  "config_session = \<lparr> maxHistoryMessages = 50, lockTimeoutMs = 30000 \<rparr>"

section \<open>Provider types (providers/types.ts)\<close>

text \<open>
  Identifiers, free-form JSON values (\<^verbatim>\<open>unknown\<close>) and message texts are strings.
\<close>

type_synonym json = string

record ToolCall =
  tc_id :: string
  tc_name :: string
  tc_args :: json

record ToolResult =
  tr_id :: string
  tr_result :: "json option"
  tr_error :: "string option"

text \<open>
  The \<^verbatim>\<open>content\<close> of a message is a string. For a \<^verbatim>\<open>TOOL\<close> message the
  pipeline stores \<^verbatim>\<open>JSON.stringify({id, result, error})\<close> and reads it back with
  \<^verbatim>\<open>JSON.parse\<close>: \<open>Json r\<close> is the string that is the JSON text of \<open>r\<close>, and
  \<open>Text s\<close> any other string. In the same way a stored \<^verbatim>\<open>toolCalls\<close> column,
  written with \<^verbatim>\<open>JSON.stringify\<close> and read with \<^verbatim>\<open>JSON.parse\<close>, is the list
  of tool calls itself.
\<close>

datatype MessageContent = Text string | Json ToolResult

datatype ConversationRole = user | assistant | system | tool

record ConversationMessage =
  cm_role :: ConversationRole
  cm_content :: MessageContent
  cm_toolCalls :: "ToolCall list option"
  cm_toolResults :: "ToolResult list option"

record ToolDefinition =
  td_name :: string
  td_description :: string
  td_parameters :: json

record ProviderRequest =
  systemPrompt :: string
  messages :: "ConversationMessage list"
  temperature :: rat
  maxTokens :: int
  tools :: "ToolDefinition list option"

record ProviderResponse =
  pr_content :: string
  pr_tokensIn :: int
  pr_tokensOut :: int
  pr_latencyMs :: int
  pr_toolCalls :: "ToolCall list option"

record ProviderCallError =
  pe_code :: string
  pe_message :: string
  pe_retryable :: bool
  pe_retryAfterMs :: "int option"

record ProviderCallResult =
  success :: bool
  response :: "ProviderResponse option"
  error :: "ProviderCallError option"
  provider :: ProviderType
  isFallback :: bool
  attemptNumber :: nat
  latencyMs :: int

section \<open>The provider orchestrator (providers/orchestrator.ts)\<close>

text \<open>
  What an adapter's \<^verbatim>\<open>sendMessage\<close> can throw: the error classes of
  \<^verbatim>\<open>utils/errors.ts\<close> that the orchestrator tells apart, with the fields it reads
  (\<^verbatim>\<open>message\<close>, \<^verbatim>\<open>retryAfterMs\<close>, \<^verbatim>\<open>statusCode\<close>, \<^verbatim>\<open>retryable\<close>),
  and any other thrown value.
\<close>

datatype AdapterError =
    ProviderSchemaError string
  | RateLimitError string "int option"
  | TimeoutError string
  | ProviderError string int bool
  | OtherError string

fun errorMessage :: "AdapterError \<Rightarrow> string" where
  "errorMessage (ProviderSchemaError m) = m"
| "errorMessage (RateLimitError m r) = m"
| "errorMessage (TimeoutError m) = m"
| "errorMessage (ProviderError m statusCode retryable) = m"
| "errorMessage (OtherError m) = m"

fun isRetryableError :: "AdapterError \<Rightarrow> bool" where
  "isRetryableError (ProviderSchemaError m) = False"
| "isRetryableError (RateLimitError m r) = True"
| "isRetryableError (TimeoutError m) = True"
| "isRetryableError (ProviderError m statusCode retryable) =
     (if statusCode \<noteq> 0 \<and> 500 \<le> statusCode \<and> statusCode < 600 then True
      else if retryable then True
      else False)"
| "isRetryableError (OtherError m) = False"

fun getErrorCode :: "AdapterError \<Rightarrow> string" where
  "getErrorCode (RateLimitError m r) = ''RATE_LIMITED''"
| "getErrorCode (TimeoutError m) = ''TIMEOUT''"
| "getErrorCode (ProviderSchemaError m) = ''PROVIDER_SCHEMA_ERROR''"
| "getErrorCode e = ''PROVIDER_ERROR''"

fun getRetryAfterMs :: "AdapterError \<Rightarrow> int option" where
  "getRetryAfterMs (RateLimitError m r) = r"
| "getRetryAfterMs e = None"

fun isRateLimitError :: "AdapterError \<Rightarrow> bool" where
  "isRateLimitError (RateLimitError m r) = True"
| "isRateLimitError e = False"

text \<open>
  The outside world of the orchestrator. The adapters are mocked vendors with random
  faults, so the outcome of a call is an oracle: \<open>adapter_sendMessage env p n req\<close> is what
  the adapter of provider \<open>p\<close> answers to \<open>req\<close> when \<open>n\<close> adapter calls were made before,
  and \<open>elapsedMs env n\<close> is the time that failing call took. The list of providers called
  so far is the log of adapter calls; every call appends to it.
\<close>

record Env =
  adapter_sendMessage :: "ProviderType \<Rightarrow> nat \<Rightarrow> ProviderRequest \<Rightarrow> AdapterError + ProviderResponse"
  elapsedMs :: "nat \<Rightarrow> int"

record OrchestratorConfig =
  primaryProvider :: ProviderType
  fallbackProvider :: "ProviderType option"
  oc_correlationId :: "string option"

record RetryState =
  rs_attemptNumber :: nat
  rs_errors :: "(ProviderType \<times> AdapterError \<times> nat) list"

text \<open>
  \<^verbatim>\<open>executeWithRetry\<close>: the loop \<^verbatim>\<open>for (attempt = 1; attempt <= maxAttempts; attempt++)\<close>,
  entered at \<open>attempt\<close>. The sleep between two attempts changes nothing but the time.
\<close>

function executeWithRetry_from ::
  "nat \<Rightarrow> Env \<Rightarrow> ProviderRequest \<Rightarrow> ProviderType \<Rightarrow> bool \<Rightarrow> RetryState \<Rightarrow> ProviderType list
     \<Rightarrow> ProviderCallResult \<times> RetryState \<times> ProviderType list" where
  "executeWithRetry_from attempt env request prov isFb retryState calls =
     (if attempt \<le> maxAttempts config_retry then
        (let retryState1 = retryState\<lparr> rs_attemptNumber := rs_attemptNumber retryState + 1 \<rparr>;
             calls1 = calls @ [prov]
         in case adapter_sendMessage env prov (length calls) request of
              Inr resp \<Rightarrow>
                (\<lparr> success = True, response = Some resp, error = None, provider = prov,
                   isFallback = isFb, attemptNumber = rs_attemptNumber retryState1,
                   latencyMs = pr_latencyMs resp \<rparr>, retryState1, calls1)
            | Inl err \<Rightarrow>
                (let retryState2 = retryState1\<lparr> rs_errors := rs_errors retryState1 @
                                       [(prov, err, rs_attemptNumber retryState1)] \<rparr>;
                     isRetryable = isRetryableError err;
                     isLastAttempt = (attempt \<ge> maxAttempts config_retry)
                 in if \<not> isRetryable \<or> isLastAttempt then
                      (\<lparr> success = False, response = None,
                         error = Some \<lparr> pe_code = getErrorCode err, pe_message = errorMessage err,
                                        pe_retryable = (isRetryable \<and> \<not> isLastAttempt),
                                        pe_retryAfterMs = getRetryAfterMs err \<rparr>,
                         provider = prov, isFallback = isFb,
                         attemptNumber = rs_attemptNumber retryState2,
                         latencyMs = elapsedMs env (length calls) \<rparr>, retryState2, calls1)
                    else executeWithRetry_from (attempt + 1) env request prov isFb retryState2 calls1))
      else
        (\<lparr> success = False, response = None,
           error = Some \<lparr> pe_code = ''PROVIDER_ERROR'', pe_message = ''Max retries exceeded'',
                          pe_retryable = False, pe_retryAfterMs = None \<rparr>,
           provider = prov, isFallback = isFb, attemptNumber = rs_attemptNumber retryState,
           latencyMs = 0 \<rparr>, retryState, calls))"
  by pat_completeness auto
termination
  by (relation "measure (\<lambda>(attempt, env, request, prov, isFb, retryState, calls).
                   Suc (maxAttempts config_retry) - attempt)") auto

declare executeWithRetry_from.simps [simp del]

definition executeWithRetry ::
  "Env \<Rightarrow> ProviderRequest \<Rightarrow> ProviderType \<Rightarrow> RetryState \<Rightarrow> bool \<Rightarrow> ProviderType list
     \<Rightarrow> ProviderCallResult \<times> RetryState \<times> ProviderType list" where
  "executeWithRetry env request prov retryState isFb calls =
     executeWithRetry_from 1 env request prov isFb retryState calls"

text \<open>
  The errors a service function throws (\<^verbatim>\<open>utils/errors.ts\<close>, the Prisma client and the
  JavaScript runtime). \<open>PrismaUniqueViolation\<close> is Prisma's error \<^verbatim>\<open>P2002\<close>, with the
  violated unique index.
\<close>

datatype Err =
    ValidationError string
  | NotFoundError string
  | ForbiddenError string
  | ConflictError string
  | PrismaUniqueViolation string
  | TypeError string
  | SyntaxError string

text \<open>
  The tail of \<^verbatim>\<open>executeWithResilience\<close> ("All attempts failed"). Reading
  \<^verbatim>\<open>lastError.error\<close> when no error was recorded is a \<^verbatim>\<open>TypeError\<close>.
\<close>

definition allAttemptsFailed :: "OrchestratorConfig \<Rightarrow> RetryState \<Rightarrow> Err + ProviderCallResult" where
  "allAttemptsFailed cfg retryState =
     (case rs_errors retryState of
        [] \<Rightarrow> Inl (TypeError ''Cannot read properties of undefined (reading 'error')'')
      | e # es \<Rightarrow>
          (case last (rs_errors retryState) of (lastProvider, lastError, lastAttempt) \<Rightarrow>
             Inr \<lparr> success = False, response = None,
                   error = Some \<lparr> pe_code = (if isRateLimitError lastError then ''RATE_LIMITED''
                                             else ''PROVIDER_ERROR''),
                                  pe_message = errorMessage lastError,
                                  pe_retryable = False, pe_retryAfterMs = None \<rparr>,
                   provider = lastProvider,
                   isFallback = (case fallbackProvider cfg of
                                   Some f \<Rightarrow> lastProvider = f | None \<Rightarrow> False),
                   attemptNumber = rs_attemptNumber retryState,
                   latencyMs = 0 \<rparr>))"

definition executeWithResilience ::
  "Env \<Rightarrow> ProviderRequest \<Rightarrow> OrchestratorConfig \<Rightarrow> ProviderType list
     \<Rightarrow> (Err + ProviderCallResult) \<times> ProviderType list" where
  "executeWithResilience env request cfg calls =
     (case executeWithRetry env request (primaryProvider cfg)
             \<lparr> rs_attemptNumber = 0, rs_errors = [] \<rparr> False calls of
        (primaryResult, retryState1, calls1) \<Rightarrow>
          if success primaryResult then (Inr primaryResult, calls1)
          else
            (case fallbackProvider cfg of
               None \<Rightarrow> (allAttemptsFailed cfg retryState1, calls1)
             | Some fb \<Rightarrow>
                 if fb \<noteq> primaryProvider cfg then
                   (case executeWithRetry env request fb retryState1 True calls1 of
                      (fallbackResult, retryState2, calls2) \<Rightarrow>
                        if success fallbackResult then (Inr fallbackResult, calls2)
                        else (allAttemptsFailed cfg retryState2, calls2))
                 else (allAttemptsFailed cfg retryState1, calls1)))"

section \<open>The database (prisma/migrations) and the process state\<close>

text \<open>
  Row identifiers are opaque: the database draws each new one from a counter. Time stamps
  (\<^verbatim>\<open>createdAt\<close>) and the columns no modelled function reads are left out. Foreign
  keys are not checked: the service functions below pass on the identifiers of rows
  they have just read or written.
\<close>

type_synonym ident = nat

datatype MessageRole = USER | ASSISTANT | SYSTEM | TOOL

datatype ProviderCallStatus = SUCCESS | FAILED | TIMEOUT | RATE_LIMITED

datatype SessionStatus = ACTIVE | ENDED | ERROR

datatype ToolExecutionStatus = TOOL_SUCCESS | TOOL_FAILED | TOOL_TIMEOUT

record Message =
  m_id :: ident
  m_sessionId :: ident
  m_sequenceNumber :: int
  m_idempotencyKey :: "string option"
  m_role :: MessageRole
  m_content :: MessageContent
  m_toolCalls :: "ToolCall list option"
  m_providerCallId :: "ident option"

record ProviderCall =
  pc_id :: ident
  pc_sessionId :: ident
  pc_correlationId :: string
  pc_provider :: ProviderType
  pc_isFallback :: bool
  pc_tokensIn :: int
  pc_tokensOut :: int
  pc_latencyMs :: int
  pc_status :: ProviderCallStatus
  pc_errorCode :: "string option"
  pc_errorMessage :: "string option"
  pc_attemptNumber :: nat
  pc_billed :: bool

record UsageEvent =
  ue_id :: ident
  ue_tenantId :: ident
  ue_agentId :: ident
  ue_sessionId :: ident
  ue_providerCallId :: ident
  ue_provider :: ProviderType
  ue_tokensIn :: int
  ue_tokensOut :: int
  ue_totalTokens :: int
  ue_costCents :: int
  ue_pricingSnapshot :: ProviderPricing

record ToolExecution =
  te_sessionId :: ident
  te_messageId :: string
  te_correlationId :: string
  te_toolName :: string
  te_toolInput :: json
  te_toolOutput :: "json option"
  te_status :: ToolExecutionStatus
  te_errorMessage :: "string option"
  te_costCents :: int

record Agent =
  ag_id :: ident
  ag_tenantId :: ident
  ag_name :: string
  ag_primaryProvider :: ProviderType
  ag_fallbackProvider :: "ProviderType option"
  ag_systemPrompt :: string
  ag_temperature :: rat
  ag_maxTokens :: int
  ag_enabledTools :: "string list"

record Session =
  s_id :: ident
  s_tenantId :: ident
  s_agentId :: ident
  s_status :: SessionStatus
  s_demoMode :: bool

datatype LockEvent = LockAcquired int | LockReleased int

text \<open>
  The state a request works on: the tables, the in-memory map \<^verbatim>\<open>sessionLocks\<close> of the
  message service (key: the lock key, value: the \<^verbatim>\<open>locked\<close> flag), the identifier
  counter, and two logs kept for the statements below: the adapter calls made and the lock
  operations performed.
\<close>

record State =
  tbl_messages :: "Message list"
  tbl_providerCalls :: "ProviderCall list"
  tbl_usageEvents :: "UsageEvent list"
  tbl_toolExecutions :: "ToolExecution list"
  tbl_sessions :: "Session list"
  tbl_agents :: "Agent list"
  sessionLocks :: "int \<Rightarrow> bool option"
  nextId :: ident
  adapterCalls :: "ProviderType list"
  lockLog :: "LockEvent list"

text \<open>A service function runs on the state and returns a value or throws.\<close>

type_synonym 'a action = "State \<Rightarrow> (Err + 'a) \<times> State"

definition returnM :: "'a \<Rightarrow> 'a action" where
  "returnM x st = (Inr x, st)"

definition throwM :: "Err \<Rightarrow> 'a action" where
  "throwM e st = (Inl e, st)"

definition bindM :: "'a action \<Rightarrow> ('a \<Rightarrow> 'b action) \<Rightarrow> 'b action" where
  "bindM m f st = (case m st of (Inl e, st1) \<Rightarrow> (Inl e, st1) | (Inr x, st1) \<Rightarrow> f x st1)"

text \<open>An operation that cannot throw, and a read of the state, as actions.\<close>

definition liftM :: "(State \<Rightarrow> 'a \<times> State) \<Rightarrow> 'a action" where
  "liftM f st = (case f st of (x, st1) \<Rightarrow> (Inr x, st1))"

definition readM :: "(State \<Rightarrow> 'a) \<Rightarrow> 'a action" where
  "readM f st = (Inr (f st), st)"

subsection \<open>The sequence generator (get_next_message_sequence, session.service.ts)\<close>

text \<open>
  The stored procedure, as the migration \<^verbatim>\<open>fix_sequence_function\<close> leaves it:
  \<^verbatim>\<open>SELECT COALESCE(MAX("sequenceNumber"), 0) + 1 FROM messages WHERE "sessionId" = p_session_id\<close>.
  The row lock it takes on the session serialises concurrent callers; one caller at a time
  is what the state-passing model has.
\<close>

definition sessionMessages :: "State \<Rightarrow> ident \<Rightarrow> Message list" where
  "sessionMessages st sessionId = filter (\<lambda>m. m_sessionId m = sessionId) (tbl_messages st)"

definition get_next_message_sequence :: "State \<Rightarrow> ident \<Rightarrow> int" where
  "get_next_message_sequence st p_session_id =
     (case map m_sequenceNumber (sessionMessages st p_session_id) of
        [] \<Rightarrow> 0 + 1
      | x # xs \<Rightarrow> fold max xs x + 1)"

definition getNextSequenceNumber :: "ident \<Rightarrow> int action" where
  "getNextSequenceNumber sessionId st = (Inr (get_next_message_sequence st sessionId), st)"

subsection \<open>Table operations\<close>

text \<open>
  \<^verbatim>\<open>prisma.message.create\<close>. The table has the unique indexes
  \<^verbatim>\<open>(sessionId, idempotencyKey)\<close>, in which rows without a key never collide, and
  \<^verbatim>\<open>(sessionId, sequenceNumber)\<close>; a violation is error \<^verbatim>\<open>P2002\<close>.
\<close>

record MessageData =
  md_sessionId :: ident
  md_sequenceNumber :: int
  md_idempotencyKey :: "string option"
  md_role :: MessageRole
  md_content :: MessageContent
  md_toolCalls :: "ToolCall list option"
  md_providerCallId :: "ident option"

definition messageRow :: "ident \<Rightarrow> MessageData \<Rightarrow> Message" where
  "messageRow i d = \<lparr> m_id = i, m_sessionId = md_sessionId d,
                       m_sequenceNumber = md_sequenceNumber d,
                       m_idempotencyKey = md_idempotencyKey d, m_role = md_role d,
                       m_content = md_content d, m_toolCalls = md_toolCalls d,
                       m_providerCallId = md_providerCallId d \<rparr>"

definition message_create :: "MessageData \<Rightarrow> Message action" where
  "message_create d st =
     (if md_idempotencyKey d \<noteq> None \<and>
         (\<exists>m \<in> set (tbl_messages st). m_sessionId m = md_sessionId d \<and>
                                      m_idempotencyKey m = md_idempotencyKey d)
      then (Inl (PrismaUniqueViolation ''messages_sessionId_idempotencyKey_key''), st)
      else if \<exists>m \<in> set (tbl_messages st). m_sessionId m = md_sessionId d \<and>
                                         m_sequenceNumber m = md_sequenceNumber d
      then (Inl (PrismaUniqueViolation ''messages_sessionId_sequenceNumber_key''), st)
      else (Inr (messageRow (nextId st) d),
            st\<lparr> tbl_messages := tbl_messages st @ [messageRow (nextId st) d],
                nextId := nextId st + 1 \<rparr>))"

text \<open>
  \<^verbatim>\<open>prisma.providerCall.create\<close> with the fields \<^verbatim>\<open>sendMessage\<close> fills in from an
  orchestrator result; \<^verbatim>\<open>billed\<close> takes its default \<^verbatim>\<open>false\<close>.
\<close>

fun getProviderCallStatus :: "string option \<Rightarrow> ProviderCallStatus" where
  "getProviderCallStatus errorCode =
     (if errorCode = Some ''TIMEOUT'' then TIMEOUT
      else if errorCode = Some ''RATE_LIMITED'' then RATE_LIMITED
      else FAILED)"

definition providerCallRow :: "ident \<Rightarrow> ident \<Rightarrow> string \<Rightarrow> ProviderCallResult \<Rightarrow> ProviderCall" where
  "providerCallRow i sessionId correlationId result =
     \<lparr> pc_id = i, pc_sessionId = sessionId, pc_correlationId = correlationId,
       pc_provider = provider result, pc_isFallback = isFallback result,
       pc_tokensIn = (case response result of Some r \<Rightarrow> pr_tokensIn r | None \<Rightarrow> 0),
       pc_tokensOut = (case response result of Some r \<Rightarrow> pr_tokensOut r | None \<Rightarrow> 0),
       pc_latencyMs = latencyMs result,
       pc_status = (if success result then SUCCESS
                    else getProviderCallStatus (map_option pe_code (error result))),
       pc_errorCode = map_option pe_code (error result),
       pc_errorMessage = map_option pe_message (error result),
       pc_attemptNumber = attemptNumber result, pc_billed = False \<rparr>"

definition providerCall_create :: "ident \<Rightarrow> string \<Rightarrow> ProviderCallResult \<Rightarrow> ProviderCall action" where
  "providerCall_create sessionId correlationId result st =
     (Inr (providerCallRow (nextId st) sessionId correlationId result),
      st\<lparr> tbl_providerCalls := tbl_providerCalls st @
             [providerCallRow (nextId st) sessionId correlationId result],
          nextId := nextId st + 1 \<rparr>)"

section \<open>The tool registry (tools/registry.ts)\<close>

record ToolContext =
  ctx_tenantId :: ident
  ctx_sessionId :: ident
  ctx_correlationId :: string

text \<open>\<^verbatim>\<open>ToolResult\<close> of \<^verbatim>\<open>tools/types.ts\<close>: what a tool's \<^verbatim>\<open>execute\<close> resolves to.\<close>

record ToolOutput =
  to_success :: bool
  to_data :: "json option"
  to_error :: "string option"

text \<open>
  How the race between a tool's \<^verbatim>\<open>execute\<close> and its timeout ends: the tool resolves,
  it rejects with an \<^verbatim>\<open>Error\<close> (its message), with a \<^verbatim>\<open>TimeoutError\<close> of its own (its
  message) or with a value that is no \<^verbatim>\<open>Error\<close>, or the timer of \<^verbatim>\<open>limits.timeoutMs\<close>
  fires first.
\<close>

datatype ToolOutcome =
  Resolved ToolOutput | Rejected string | RejectedTimeoutError string | RejectedNonError | TimedOut

text \<open>
  A registered tool. What \<^verbatim>\<open>execute\<close> does is the tool's business: \<open>tool_execute t args
  ctx n\<close> is the outcome of running it when \<open>n\<close> executions were recorded before.
\<close>

record Tool =
  tool_timeoutMs :: nat
  tool_estimatedCostCents :: int
  tool_execute :: "json \<Rightarrow> ToolContext \<Rightarrow> nat \<Rightarrow> ToolOutcome"

text \<open>
  The rest of the outside world of the message service: the registered tools, the hash
  \<^verbatim>\<open>uuidToLockKey\<close> and the generator of correlation identifiers.
\<close>

record World =
  orchestratorEnv :: Env
  toolRegistry :: "string \<Rightarrow> Tool option"
  uuidToLockKey :: "ident \<Rightarrow> int"
  generateCorrelationId :: "ident \<Rightarrow> string"

definition toolRegistry_execute ::
  "World \<Rightarrow> string \<Rightarrow> json \<Rightarrow> ToolContext \<Rightarrow> string list \<Rightarrow> ToolOutput action" where
  "toolRegistry_execute w toolName args context agentEnabledTools st =
     (case toolRegistry w toolName of
        None \<Rightarrow> (Inl (NotFoundError (''Tool '' @ [CHR 0x27] @ toolName @ [CHR 0x27] @ '' not found'')), st)
      | Some t \<Rightarrow>
          if toolName \<notin> set agentEnabledTools then
            (Inl (ForbiddenError (''Tool '' @ [CHR 0x27] @ toolName @ [CHR 0x27]
                                   @ '' is not enabled for this agent'')), st)
          else
            (case (case tool_execute t args context (length (tbl_toolExecutions st)) of
                     Resolved r \<Rightarrow> (r, if to_success r then TOOL_SUCCESS else TOOL_FAILED)
                   | TimedOut \<Rightarrow>
                       (\<lparr> to_success = False, to_data = None,
                          to_error = Some (''Tool '' @ [CHR 0x27] @ toolName @ [CHR 0x27]
                                           @ '' timed out'') \<rparr>, TOOL_TIMEOUT)
                   | RejectedTimeoutError msg \<Rightarrow>
                       (\<lparr> to_success = False, to_data = None, to_error = Some msg \<rparr>, TOOL_TIMEOUT)
                   | Rejected msg \<Rightarrow>
                       (\<lparr> to_success = False, to_data = None, to_error = Some msg \<rparr>, TOOL_FAILED)
                   | RejectedNonError \<Rightarrow>
                       (\<lparr> to_success = False, to_data = None,
                          to_error = Some ''Unknown error'' \<rparr>, TOOL_FAILED)) of
               (result, status) \<Rightarrow>
                 (Inr result,
                  st\<lparr> tbl_toolExecutions := tbl_toolExecutions st @
                        [\<lparr> te_sessionId = ctx_sessionId context, te_messageId = '''',
                           te_correlationId = ctx_correlationId context, te_toolName = toolName,
                           te_toolInput = args, te_toolOutput = to_data result,
                           te_status = status, te_errorMessage = to_error result,
                           te_costCents = tool_estimatedCostCents t \<rparr>] \<rparr>)))"

section \<open>The message service (sendMessage and its helpers)\<close>

text \<open>The \<^verbatim>\<open>message\<close> of a thrown error, and the code and HTTP status of its class.\<close>

fun errMessage :: "Err \<Rightarrow> string" where
  "errMessage (ValidationError m) = m"
| "errMessage (NotFoundError m) = m"
| "errMessage (ForbiddenError m) = m"
| "errMessage (ConflictError m) = m"
| "errMessage (PrismaUniqueViolation target) = ''Unique constraint failed on the constraint: '' @ target"
| "errMessage (TypeError m) = m"
| "errMessage (SyntaxError m) = m"

text \<open>
  What the error handler (\<^verbatim>\<open>plugins/error-handler.ts\<close>) answers: the code and status of
  an \<^verbatim>\<open>AppError\<close>, and \<^verbatim>\<open>INTERNAL_ERROR\<close>, 500 for anything else.
\<close>

fun errorResponse :: "Err \<Rightarrow> string \<times> nat" where
  "errorResponse (ValidationError m) = (''VALIDATION_ERROR'', 400)"
| "errorResponse (NotFoundError m) = (''NOT_FOUND'', 404)"
| "errorResponse (ForbiddenError m) = (''FORBIDDEN'', 403)"
| "errorResponse (ConflictError m) = (''CONFLICT'', 409)"
| "errorResponse (PrismaUniqueViolation target) = (''INTERNAL_ERROR'', 500)"
| "errorResponse (TypeError m) = (''INTERNAL_ERROR'', 500)"
| "errorResponse (SyntaxError m) = (''INTERNAL_ERROR'', 500)"

record SendMessageInput =
  in_content :: string
  in_idempotencyKey :: "string option"
  in_correlationId :: "string option"

record ResponseMetadata =
  meta_provider :: string
  meta_tokensIn :: int
  meta_tokensOut :: int
  meta_latencyMs :: int
  meta_correlationId :: string
  meta_usedFallback :: bool

record MessageResponse =
  mr_id :: ident
  mr_sessionId :: ident
  mr_role :: MessageRole
  mr_content :: MessageContent
  mr_toolCalls :: "ToolCall list option"
  mr_metadata :: ResponseMetadata

fun providerName :: "ProviderType \<Rightarrow> string" where
  "providerName VENDOR_A = ''VENDOR_A''"
| "providerName VENDOR_B = ''VENDOR_B''"

text \<open>A message with its provider call (\<^verbatim>\<open>include: { providerCall: true }\<close>).\<close>

definition includeProviderCall :: "State \<Rightarrow> Message \<Rightarrow> Message \<times> ProviderCall option" where
  "includeProviderCall st m =
     (m, case m_providerCallId m of
           None \<Rightarrow> None
         | Some i \<Rightarrow> find (\<lambda>pc. pc_id pc = i) (tbl_providerCalls st))"

fun formatMessageResponse :: "Message \<times> ProviderCall option \<Rightarrow> MessageResponse" where
  "formatMessageResponse (message, pc) =
     \<lparr> mr_id = m_id message, mr_sessionId = m_sessionId message, mr_role = m_role message,
       mr_content = m_content message, mr_toolCalls = m_toolCalls message,
       mr_metadata =
         \<lparr> meta_provider = (case pc of Some c \<Rightarrow> providerName (pc_provider c) | None \<Rightarrow> ''UNKNOWN''),
           meta_tokensIn = (case pc of Some c \<Rightarrow> pc_tokensIn c | None \<Rightarrow> 0),
           meta_tokensOut = (case pc of Some c \<Rightarrow> pc_tokensOut c | None \<Rightarrow> 0),
           meta_latencyMs = (case pc of Some c \<Rightarrow> pc_latencyMs c | None \<Rightarrow> 0),
           meta_correlationId = (case pc of Some c \<Rightarrow> pc_correlationId c | None \<Rightarrow> ''''),
           meta_usedFallback = (case pc of Some c \<Rightarrow> pc_isFallback c | None \<Rightarrow> False) \<rparr> \<rparr>"

definition findByIdempotencyKey ::
  "State \<Rightarrow> ident \<Rightarrow> string \<Rightarrow> (Message \<times> ProviderCall option) option" where
  "findByIdempotencyKey st sessionId idempotencyKey =
     (case find (\<lambda>m. m_sessionId m = sessionId \<and> m_idempotencyKey m = Some idempotencyKey \<and>
                      m_role m = USER) (tbl_messages st) of
        None \<Rightarrow> None
      | Some userMessage \<Rightarrow>
          map_option (includeProviderCall st)
            (find (\<lambda>m. m_sessionId m = sessionId \<and>
                        m_sequenceNumber m = m_sequenceNumber userMessage + 1 \<and>
                        m_role m = ASSISTANT) (tbl_messages st)))"

text \<open>
  \<^verbatim>\<open>withSessionLock\<close>, the in-memory variant in use: fail fast when the key is locked,
  otherwise lock, run the critical section and unlock whatever its outcome
  (\<^verbatim>\<open>try ... finally\<close>).
\<close>

definition withSessionLock :: "int \<Rightarrow> 'a action \<Rightarrow> 'a action" where
  "withSessionLock lockKey fn st =
     (if sessionLocks st lockKey = Some True then
        (Inl (ConflictError ''Session is currently processing another message. Please retry.''), st)
      else
        (case fn (st\<lparr> sessionLocks := (sessionLocks st)(lockKey := Some True),
                       lockLog := lockLog st @ [LockAcquired lockKey] \<rparr>) of
           (outcome, st1) \<Rightarrow>
             (outcome, st1\<lparr> sessionLocks := (sessionLocks st1)(lockKey := None),
                             lockLog := lockLog st1 @ [LockReleased lockKey] \<rparr>)))"

definition getSessionWithAgent :: "ident \<Rightarrow> ident \<Rightarrow> (Session \<times> Agent) action" where
  "getSessionWithAgent tenantId sessionId st =
     (case find (\<lambda>s. s_id s = sessionId \<and> s_tenantId s = tenantId) (tbl_sessions st) of
        None \<Rightarrow> (Inl (NotFoundError ''Session not found''), st)
      | Some session \<Rightarrow>
          (case find (\<lambda>a. ag_id a = s_agentId session) (tbl_agents st) of
             None \<Rightarrow> (Inl (NotFoundError ''Agent not found''), st)
           | Some agent \<Rightarrow> (Inr (session, agent), st)))"

text \<open>
  \<^verbatim>\<open>loadConversationHistory\<close>: \<^verbatim>\<open>findMany\<close> with
  \<^verbatim>\<open>orderBy: { sequenceNumber: 'asc' }, take: config.session.maxHistoryMessages\<close>,
  then the translation of each row; \<^verbatim>\<open>JSON.parse\<close> of a \<^verbatim>\<open>TOOL\<close> message whose content
  is not JSON throws.
\<close>

definition historyRows :: "State \<Rightarrow> ident \<Rightarrow> Message list" where
  "historyRows st sessionId =
     take (maxHistoryMessages config_session)
       (sort_key m_sequenceNumber (sessionMessages st sessionId))"

fun roleToLowerCase :: "MessageRole \<Rightarrow> ConversationRole" where
  "roleToLowerCase USER = user"
| "roleToLowerCase ASSISTANT = assistant"
| "roleToLowerCase SYSTEM = system"
| "roleToLowerCase TOOL = tool"

definition toConversationMessage :: "Message \<Rightarrow> Err + ConversationMessage" where
  "toConversationMessage msg =
     (let baseMsg = \<lparr> cm_role = roleToLowerCase (m_role msg), cm_content = m_content msg,
                       cm_toolCalls = (if m_role msg = ASSISTANT then m_toolCalls msg else None),
                       cm_toolResults = None \<rparr>
      in if m_role msg = TOOL then
           (case m_content msg of
              Json toolData \<Rightarrow> Inr (baseMsg\<lparr> cm_toolResults := Some [toolData] \<rparr>)
            | Text s \<Rightarrow> Inl (SyntaxError ''Unexpected token in JSON''))
         else Inr baseMsg)"

fun mapResult :: "('a \<Rightarrow> Err + 'b) \<Rightarrow> 'a list \<Rightarrow> Err + 'b list" where
  "mapResult f [] = Inr []"
| "mapResult f (x # xs) =
     (case f x of
        Inl e \<Rightarrow> Inl e
      | Inr y \<Rightarrow> (case mapResult f xs of Inl e \<Rightarrow> Inl e | Inr ys \<Rightarrow> Inr (y # ys)))"

definition loadConversationHistory :: "ident \<Rightarrow> ConversationMessage list action" where
  "loadConversationHistory sessionId st =
     (mapResult toConversationMessage (historyRows st sessionId), st)"

definition invoiceLookupDefinition :: ToolDefinition where
  "invoiceLookupDefinition =
     \<lparr> td_name = ''InvoiceLookup'',
       td_description = ''Look up invoice or order details by order ID'',
       td_parameters = ''{type: object, properties: {orderId: {type: string, description: The order ID to look up}}, required: [orderId]}'' \<rparr>"

definition buildProviderRequest :: "Agent \<Rightarrow> ConversationMessage list \<Rightarrow> string \<Rightarrow> ProviderRequest" where
  "buildProviderRequest agent history newMessage =
     \<lparr> systemPrompt = ag_systemPrompt agent,
       messages = history @ [\<lparr> cm_role = user, cm_content = Text newMessage,
                               cm_toolCalls = None, cm_toolResults = None \<rparr>],
       temperature = ag_temperature agent,
       maxTokens = ag_maxTokens agent,
       tools = (if length (ag_enabledTools agent) > 0 then
                  (if ''InvoiceLookup'' \<in> set (ag_enabledTools agent)
                   then Some [invoiceLookupDefinition] else None)
                else None) \<rparr>"

text \<open>
  \<^verbatim>\<open>createUsageEvent\<close>. The conditional update and the insert run in one transaction: a
  unique violation on \<^verbatim>\<open>usage_events.providerCallId\<close> rolls the update back, and the
  handler around the transaction swallows it.
\<close>

definition createUsageEvent ::
  "ident \<Rightarrow> ident \<Rightarrow> ident \<Rightarrow> bool \<Rightarrow> ProviderCall \<Rightarrow> unit action" where
  "createUsageEvent tenantId agentId sessionId demoMode providerCall st =
     (if demoMode then (Inr (), st)
      else if pc_status providerCall \<noteq> SUCCESS then (Inr (), st)
      else
        (let costCents = calculateCost (pc_provider providerCall) (pc_tokensIn providerCall)
                           (pc_tokensOut providerCall);
             updated_count = length (filter (\<lambda>pc. pc_id pc = pc_id providerCall \<and> \<not> pc_billed pc)
                                      (tbl_providerCalls st));
             st1 = st\<lparr> tbl_providerCalls :=
                        map (\<lambda>pc. if pc_id pc = pc_id providerCall \<and> \<not> pc_billed pc
                                  then pc\<lparr> pc_billed := True \<rparr> else pc) (tbl_providerCalls st) \<rparr>
         in if updated_count = 0 then (Inr (), st1)
            else if \<exists>ue \<in> set (tbl_usageEvents st1). ue_providerCallId ue = pc_id providerCall
            then (Inr (), st)
            else
              (Inr (),
               st1\<lparr> tbl_usageEvents := tbl_usageEvents st1 @
                     [\<lparr> ue_id = nextId st1, ue_tenantId = tenantId, ue_agentId = agentId,
                        ue_sessionId = sessionId, ue_providerCallId = pc_id providerCall,
                        ue_provider = pc_provider providerCall,
                        ue_tokensIn = pc_tokensIn providerCall,
                        ue_tokensOut = pc_tokensOut providerCall,
                        ue_totalTokens = pc_tokensIn providerCall + pc_tokensOut providerCall,
                        ue_costCents = costCents,
                        ue_pricingSnapshot = getPricingSnapshot (pc_provider providerCall) \<rparr>],
                     nextId := nextId st1 + 1 \<rparr>)))"

text \<open>
  \<^verbatim>\<open>executeToolCalls\<close>: one result per tool call. \<open>executeToolCall\<close> is the
  body of its loop: whatever the registry throws is caught and becomes the
  \<^verbatim>\<open>error\<close> of the result.
\<close>

definition executeToolCall ::
  "World \<Rightarrow> ToolCall \<Rightarrow> Agent \<Rightarrow> ToolContext \<Rightarrow> State \<Rightarrow> ToolResult \<times> State" where
  "executeToolCall w toolCall agent context st =
     (case toolRegistry_execute w (tc_name toolCall) (tc_args toolCall) context
             (ag_enabledTools agent) st of
        (Inr toolResult, st1) \<Rightarrow>
          (\<lparr> tr_id = tc_id toolCall,
             tr_result = (if to_success toolResult then to_data toolResult else None),
             tr_error = to_error toolResult \<rparr>, st1)
      | (Inl err, st1) \<Rightarrow>
          (\<lparr> tr_id = tc_id toolCall, tr_result = None,
             tr_error = Some (errMessage err) \<rparr>, st1))"

fun executeToolCalls ::
  "World \<Rightarrow> ToolCall list \<Rightarrow> Agent \<Rightarrow> ToolContext \<Rightarrow> State \<Rightarrow> ToolResult list \<times> State" where
  "executeToolCalls w [] agent context st = ([], st)"
| "executeToolCalls w (toolCall # rest) agent context st =
     (case executeToolCall w toolCall agent context st of
        (result, st1) \<Rightarrow>
          (case executeToolCalls w rest agent context st1 of
             (results, st2) \<Rightarrow> (result # results, st2)))"

text \<open>
  Steps 6 and 7 of \<^verbatim>\<open>sendMessage\<close>: call the orchestrator with the agent's providers
  and store the provider call record, whatever the outcome.
\<close>

definition runOrchestrator :: "World \<Rightarrow> ProviderRequest \<Rightarrow> Agent \<Rightarrow> string \<Rightarrow> ProviderCallResult action" where
  "runOrchestrator w request agent correlationId st =
     (case executeWithResilience (orchestratorEnv w) request
             \<lparr> primaryProvider = ag_primaryProvider agent,
               fallbackProvider = ag_fallbackProvider agent,
               oc_correlationId = Some correlationId \<rparr> (adapterCalls st) of
        (outcome, calls) \<Rightarrow> (outcome, st\<lparr> adapterCalls := calls \<rparr>))"

definition callProvider ::
  "World \<Rightarrow> ident \<Rightarrow> string \<Rightarrow> Agent \<Rightarrow> ProviderRequest \<Rightarrow> (ProviderCallResult \<times> ProviderCall) action" where
  "callProvider w sessionId correlationId agent request =
     bindM (runOrchestrator w request agent correlationId) (\<lambda>result.
     bindM (providerCall_create sessionId correlationId result) (\<lambda>providerCall.
     returnM (result, providerCall)))"

text \<open>
  \<^verbatim>\<open>if (!result.success || !result.response) throw new ValidationError(result.error?.message || fallbackText)\<close>.
\<close>

definition responseOrThrow :: "string \<Rightarrow> ProviderCallResult \<Rightarrow> ProviderResponse action" where
  "responseOrThrow fallbackText result =
     (case (if success result then response result else None) of
        Some resp \<Rightarrow> returnM resp
      | None \<Rightarrow>
          throwM (ValidationError
            (case error result of
               Some e \<Rightarrow> if pe_message e = [] then fallbackText else pe_message e
             | None \<Rightarrow> fallbackText)))"

text \<open>The loop that stores one \<^verbatim>\<open>TOOL\<close> message per tool result.\<close>

fun storeToolResults :: "ident \<Rightarrow> ToolResult list \<Rightarrow> unit action" where
  "storeToolResults sessionId [] = returnM ()"
| "storeToolResults sessionId (toolResult # rest) =
     bindM (getNextSequenceNumber sessionId) (\<lambda>toolSequence.
     bindM (message_create \<lparr> md_sessionId = sessionId, md_sequenceNumber = toolSequence,
                             md_idempotencyKey = None, md_role = TOOL,
                             md_content = Json toolResult, md_toolCalls = None,
                             md_providerCallId = None \<rparr>) (\<lambda>stored.
     storeToolResults sessionId rest))"

text \<open>
  Step 8, the body of \<^verbatim>\<open>if (result.response.toolCalls && result.response.toolCalls.length > 0)\<close>:
  the interim assistant message, the tool executions, the \<^verbatim>\<open>TOOL\<close> messages, and the
  follow-up provider call with its record.
\<close>

definition toolRound ::
  "World \<Rightarrow> ident \<Rightarrow> ident \<Rightarrow> string \<Rightarrow> Agent \<Rightarrow> ProviderResponse \<Rightarrow> ProviderCall \<Rightarrow> ToolCall list
     \<Rightarrow> (ProviderResponse \<times> ProviderCall) action" where
  "toolRound w tenantId sessionId correlationId agent resp providerCall toolCalls =
     bindM (getNextSequenceNumber sessionId) (\<lambda>assistantSequence.
     bindM (message_create \<lparr> md_sessionId = sessionId, md_sequenceNumber = assistantSequence,
                             md_idempotencyKey = None, md_role = ASSISTANT,
                             md_content = Text (pr_content resp), md_toolCalls = Some toolCalls,
                             md_providerCallId = Some (pc_id providerCall) \<rparr>) (\<lambda>interim.
     bindM (liftM (executeToolCalls w toolCalls agent
                     \<lparr> ctx_tenantId = tenantId, ctx_sessionId = sessionId,
                       ctx_correlationId = correlationId \<rparr>)) (\<lambda>toolResults.
     bindM (storeToolResults sessionId toolResults) (\<lambda>stored.
     bindM (loadConversationHistory sessionId) (\<lambda>updatedHistory.
     bindM (callProvider w sessionId correlationId agent
              (buildProviderRequest agent updatedHistory '''')) (\<lambda>(finalResult, finalProviderCall).
     bindM (responseOrThrow ''Failed to get final response from AI provider'' finalResult)
       (\<lambda>finalResponse.
     returnM (finalResponse, finalProviderCall))))))))"

text \<open>Steps 9 and 10: the final assistant message, then billing.\<close>

definition finishMessage ::
  "ident \<Rightarrow> ident \<Rightarrow> Session \<Rightarrow> Agent \<Rightarrow> ProviderResponse \<Rightarrow> ProviderCall \<Rightarrow> ProviderCall option
     \<Rightarrow> MessageResponse action" where
  "finishMessage tenantId sessionId session agent finalResponse finalProviderCall initialProviderCall =
     bindM (getNextSequenceNumber sessionId) (\<lambda>assistantSequence.
     bindM (message_create \<lparr> md_sessionId = sessionId, md_sequenceNumber = assistantSequence,
                             md_idempotencyKey = None, md_role = ASSISTANT,
                             md_content = Text (pr_content finalResponse),
                             md_toolCalls = pr_toolCalls finalResponse,
                             md_providerCallId = Some (pc_id finalProviderCall) \<rparr>) (\<lambda>created.
     bindM (readM (\<lambda>st. includeProviderCall st created)) (\<lambda>assistantMessage.
     bindM (case initialProviderCall of
              Some initial \<Rightarrow> createUsageEvent tenantId (ag_id agent) sessionId
                                 (s_demoMode session) initial
            | None \<Rightarrow> returnM ()) (\<lambda>billedInitial.
     bindM (createUsageEvent tenantId (ag_id agent) sessionId (s_demoMode session)
              finalProviderCall) (\<lambda>billedFinal.
     returnM (formatMessageResponse assistantMessage))))))"

text \<open>Steps 5 to 10, once the session and its agent are loaded and the history is read.\<close>

definition runConversation ::
  "World \<Rightarrow> ident \<Rightarrow> ident \<Rightarrow> SendMessageInput \<Rightarrow> string \<Rightarrow> Session \<Rightarrow> Agent
     \<Rightarrow> ConversationMessage list \<Rightarrow> MessageResponse action" where
  "runConversation w tenantId sessionId input correlationId session agent history =
     bindM (getNextSequenceNumber sessionId) (\<lambda>userSequence.
     bindM (message_create \<lparr> md_sessionId = sessionId, md_sequenceNumber = userSequence,
                             md_idempotencyKey = in_idempotencyKey input, md_role = USER,
                             md_content = Text (in_content input), md_toolCalls = None,
                             md_providerCallId = None \<rparr>) (\<lambda>userMessage.
     bindM (callProvider w sessionId correlationId agent
              (buildProviderRequest agent history (in_content input))) (\<lambda>(result, providerCall).
     bindM (responseOrThrow ''Failed to get response from AI provider'' result) (\<lambda>resp.
     (case pr_toolCalls resp of
        Some (toolCall # rest) \<Rightarrow>
          bindM (toolRound w tenantId sessionId correlationId agent resp providerCall
                   (toolCall # rest)) (\<lambda>(finalResponse, finalProviderCall).
          finishMessage tenantId sessionId session agent finalResponse finalProviderCall
            (Some providerCall))
      | _ \<Rightarrow> finishMessage tenantId sessionId session agent resp providerCall None)))))"

text \<open>The critical section of \<^verbatim>\<open>sendMessage\<close> (steps 3 to 10).\<close>

definition processMessage ::
  "World \<Rightarrow> ident \<Rightarrow> ident \<Rightarrow> SendMessageInput \<Rightarrow> string \<Rightarrow> MessageResponse action" where
  "processMessage w tenantId sessionId input correlationId =
     bindM (getSessionWithAgent tenantId sessionId) (\<lambda>(session, agent).
     if s_status session \<noteq> ACTIVE then
       throwM (ValidationError ''Cannot send message to ended session'')
     else
       bindM (loadConversationHistory sessionId) (\<lambda>history.
       runConversation w tenantId sessionId input correlationId session agent history))"

text \<open>
  \<^verbatim>\<open>sendMessage\<close>. An empty string is falsy: \<^verbatim>\<open>input.correlationId || ...\<close> replaces
  it, and \<^verbatim>\<open>if (input.idempotencyKey)\<close> skips step 1 for it.
\<close>

definition idempotencyPreCheck ::
  "State \<Rightarrow> ident \<Rightarrow> SendMessageInput \<Rightarrow> (Message \<times> ProviderCall option) option" where
  "idempotencyPreCheck st sessionId input =
     (case in_idempotencyKey input of
        None \<Rightarrow> None
      | Some key \<Rightarrow> if key = [] then None else findByIdempotencyKey st sessionId key)"

definition sendMessage :: "World \<Rightarrow> ident \<Rightarrow> ident \<Rightarrow> SendMessageInput \<Rightarrow> MessageResponse action" where
  "sendMessage w tenantId sessionId input st =
     (let correlationId =
            (case in_correlationId input of
               None \<Rightarrow> generateCorrelationId w (nextId st)
             | Some c \<Rightarrow> if c = [] then generateCorrelationId w (nextId st) else c)
      in case idempotencyPreCheck st sessionId input of
           Some existing \<Rightarrow> (Inr (formatMessageResponse existing), st)
         | None \<Rightarrow>
             withSessionLock (uuidToLockKey w sessionId)
               (processMessage w tenantId sessionId input correlationId) st)"

section \<open>Notions used in the statements\<close>

text \<open>The sequence numbers of a session, in the order of insertion, and \<open>1, ..., n\<close>.\<close>

definition sessionSequence :: "State \<Rightarrow> ident \<Rightarrow> int list" where
  "sessionSequence st sessionId = map m_sequenceNumber (sessionMessages st sessionId)"

definition oneToN :: "nat \<Rightarrow> int list" where
  "oneToN n = map int [1..<Suc n]"

text \<open>
  The pattern \<^verbatim>\<open>sendMessage\<close> follows for each of its messages: allocate the sequence
  number, then insert the row with it. \<open>insertAll\<close> does so for a list of rows, one
  after the other, whether an insert fails or not.
\<close>

definition allocateAndInsert :: "MessageData \<Rightarrow> Message action" where
  "allocateAndInsert d =
     bindM (getNextSequenceNumber (md_sessionId d)) (\<lambda>n.
     message_create (d\<lparr> md_sequenceNumber := n \<rparr>))"

fun insertAll :: "MessageData list \<Rightarrow> State \<Rightarrow> State" where
  "insertAll [] st = st"
| "insertAll (d # ds) st = insertAll ds (snd (allocateAndInsert d st))"

text \<open>The number of usage events that refer to a provider call.\<close>

definition usageEventCount :: "State \<Rightarrow> ident \<Rightarrow> nat" where
  "usageEventCount st providerCallId =
     length (filter (\<lambda>ue. ue_providerCallId ue = providerCallId) (tbl_usageEvents st))"

text \<open>
  What the database and \<^const>\<open>createUsageEvent\<close> maintain between them: identifiers of
  provider calls are unique (primary key), no two usage events refer to the same call
  (unique index), and a call marked as billed has its usage event.
\<close>

definition billingConsistent :: "State \<Rightarrow> bool" where
  "billingConsistent st =
     (distinct (map pc_id (tbl_providerCalls st)) \<and>
      distinct (map ue_providerCallId (tbl_usageEvents st)) \<and>
      (\<forall>pc \<in> set (tbl_providerCalls st).
         pc_billed pc \<longrightarrow> pc_id pc \<in> ue_providerCallId ` set (tbl_usageEvents st)))"

text \<open>\<^const>\<open>createUsageEvent\<close> invoked \<open>n\<close> times in a row, with the outcome of each invocation.\<close>

fun createUsageEvent_times ::
  "nat \<Rightarrow> ident \<Rightarrow> ident \<Rightarrow> ident \<Rightarrow> bool \<Rightarrow> ProviderCall \<Rightarrow> State \<Rightarrow> (Err + unit) list \<times> State" where
  "createUsageEvent_times 0 tenantId agentId sessionId demoMode providerCall st = ([], st)"
| "createUsageEvent_times (Suc n) tenantId agentId sessionId demoMode providerCall st =
     (case createUsageEvent tenantId agentId sessionId demoMode providerCall st of
        (outcome, st1) \<Rightarrow>
          (case createUsageEvent_times n tenantId agentId sessionId demoMode providerCall st1 of
             (outcomes, st2) \<Rightarrow> (outcome # outcomes, st2)))"

text \<open>
  The rows that the loop over the tool results stores: one \<open>TOOL\<close> message per result,
  with consecutive sequence numbers from \<open>n\<close> and identifiers from \<open>i\<close>.
\<close>

fun toolRows :: "ident \<Rightarrow> ToolResult list \<Rightarrow> int \<Rightarrow> ident \<Rightarrow> Message list" where
  "toolRows sessionId [] n i = []"
| "toolRows sessionId (toolResult # rest) n i =
     messageRow i \<lparr> md_sessionId = sessionId, md_sequenceNumber = n, md_idempotencyKey = None,
                     md_role = TOOL, md_content = Json toolResult, md_toolCalls = None,
                     md_providerCallId = None \<rparr>
     # toolRows sessionId rest (n + 1) (i + 1)"

text \<open>
  The \<open>TOOL\<close> messages of a session hold what \<^verbatim>\<open>JSON.stringify\<close> wrote, so that the
  history reader can parse them. The message service writes no other \<open>TOOL\<close> messages.
\<close>

fun isJson :: "MessageContent \<Rightarrow> bool" where
  "isJson (Json r) = True"
| "isJson (Text s) = False"

definition toolMessagesHoldJson :: "State \<Rightarrow> ident \<Rightarrow> bool" where
  "toolMessagesHoldJson st sessionId =
     (\<forall>m \<in> set (sessionMessages st sessionId). m_role m = TOOL \<longrightarrow> isJson (m_content m))"

text \<open>The result of a tool call that failed: \<^verbatim>\<open>{ id, result: null, error }\<close>.\<close>

definition failedResult :: "ToolCall \<Rightarrow> string \<Rightarrow> ToolResult" where
  "failedResult toolCall message = \<lparr> tr_id = tc_id toolCall, tr_result = None, tr_error = Some message \<rparr>"



definition interimRow :: "State \<Rightarrow> ident \<Rightarrow> ProviderResponse \<Rightarrow> ProviderCall \<Rightarrow> ToolCall list \<Rightarrow> Message" where
  "interimRow st sessionId resp providerCall toolCalls =
     messageRow (nextId st)
      \<lparr> md_sessionId = sessionId, md_sequenceNumber = get_next_message_sequence st sessionId,
        md_idempotencyKey = None, md_role = ASSISTANT, md_content = Text (pr_content resp),
        md_toolCalls = Some toolCalls, md_providerCallId = Some (pc_id providerCall) \<rparr>"


text \<open>
  The two halves of \<^const>\<open>toolRound\<close>: \<open>toolRun\<close> is the execution of the tool calls once
  the interim message is stored, \<open>afterToolMessages\<close> the state once their results are
  stored too, and \<open>followUp\<close> the rest of the round, from reading the history again to
  the answer of the follow-up provider call.
\<close>

definition toolRun ::
  "World \<Rightarrow> ident \<Rightarrow> ident \<Rightarrow> string \<Rightarrow> Agent \<Rightarrow> ProviderResponse \<Rightarrow> ProviderCall \<Rightarrow> ToolCall list
     \<Rightarrow> State \<Rightarrow> ToolResult list \<times> State" where
  "toolRun w tenantId sessionId correlationId agent resp providerCall toolCalls st =
     executeToolCalls w toolCalls agent
       \<lparr> ctx_tenantId = tenantId, ctx_sessionId = sessionId, ctx_correlationId = correlationId \<rparr>
       (st\<lparr> tbl_messages := tbl_messages st @ [interimRow st sessionId resp providerCall toolCalls],
           nextId := nextId st + 1 \<rparr>)"

definition afterToolMessages ::
  "World \<Rightarrow> ident \<Rightarrow> ident \<Rightarrow> string \<Rightarrow> Agent \<Rightarrow> ProviderResponse \<Rightarrow> ProviderCall \<Rightarrow> ToolCall list
     \<Rightarrow> State \<Rightarrow> State" where
  "afterToolMessages w tenantId sessionId correlationId agent resp providerCall toolCalls st =
     st\<lparr> tbl_messages := tbl_messages st @
            interimRow st sessionId resp providerCall toolCalls #
            toolRows sessionId
              (fst (toolRun w tenantId sessionId correlationId agent resp providerCall toolCalls st))
              (get_next_message_sequence st sessionId + 1) (nextId st + 1),
         tbl_toolExecutions := tbl_toolExecutions
              (snd (toolRun w tenantId sessionId correlationId agent resp providerCall toolCalls st)),
         nextId := nextId st + 1 + length toolCalls \<rparr>"

definition followUp ::
  "World \<Rightarrow> ident \<Rightarrow> string \<Rightarrow> Agent \<Rightarrow> (ProviderResponse \<times> ProviderCall) action" where
  "followUp w sessionId correlationId agent =
     bindM (loadConversationHistory sessionId) (\<lambda>updatedHistory.
     bindM (callProvider w sessionId correlationId agent
              (buildProviderRequest agent updatedHistory '''')) (\<lambda>(finalResult, finalProviderCall).
     bindM (responseOrThrow ''Failed to get final response from AI provider'' finalResult)
       (\<lambda>finalResponse.
     returnM (finalResponse, finalProviderCall))))"

text \<open>
  A provider call without its billing mark, the only field of a stored call that is ever
  updated. A later state keeps the rows of an earlier one when the messages of the earlier
  state are the first messages of the later one, and likewise its provider calls, but for
  their billing marks.
\<close>

definition unbilled :: "ProviderCall \<Rightarrow> ProviderCall" where
  "unbilled pc = pc\<lparr> pc_billed := False \<rparr>"

definition keepsRows :: "State \<Rightarrow> State \<Rightarrow> bool" where
  "keepsRows st st' =
     (take (length (tbl_messages st)) (tbl_messages st') = tbl_messages st \<and>
      take (length (tbl_providerCalls st)) (map unbilled (tbl_providerCalls st'))
        = map unbilled (tbl_providerCalls st))"



section \<open>Sample inputs\<close>

text \<open>The request of the orchestrator tests, and vendors that fail or answer.\<close>

definition demoRequest :: ProviderRequest where
  "demoRequest = \<lparr> systemPrompt = ''You are a helpful assistant.'',
       messages = [\<lparr> cm_role = user, cm_content = Text ''Hello'', cm_toolCalls = None,
                     cm_toolResults = None \<rparr>],
       temperature = 7 / 10, maxTokens = 100, tools = None \<rparr>"

definition serverError :: AdapterError where
  "serverError = ProviderError ''VendorA internal server error'' 500 True"

definition plainAnswer :: ProviderResponse where
  "plainAnswer = \<lparr> pr_content = ''Hello! How can I help?'', pr_tokensIn = 12, pr_tokensOut = 8,
       pr_latencyMs = 80, pr_toolCalls = None \<rparr>"

definition failingEnv :: Env where
  "failingEnv = \<lparr> adapter_sendMessage = (\<lambda>p n req. Inl serverError), elapsedMs = (\<lambda>n. 5) \<rparr>"

definition primaryDownEnv :: Env where
  "primaryDownEnv = \<lparr> adapter_sendMessage =
        (\<lambda>p n req. case p of VENDOR_A \<Rightarrow> Inl serverError | VENDOR_B \<Rightarrow> Inr plainAnswer),
      elapsedMs = (\<lambda>n. 5) \<rparr>"

definition agentConfigAB :: OrchestratorConfig where
  "agentConfigAB = \<lparr> primaryProvider = VENDOR_A, fallbackProvider = Some VENDOR_B,
       oc_correlationId = Some ''test-123'' \<rparr>"

text \<open>
  A tenant with the agent of the billing integration test, one active session, and no
  messages yet.
\<close>

definition sampleAgent :: Agent where
  "sampleAgent = \<lparr> ag_id = 10, ag_tenantId = 1, ag_name = ''Test Billing Agent'',
      ag_primaryProvider = VENDOR_A, ag_fallbackProvider = Some VENDOR_B,
      ag_systemPrompt = ''You are a test assistant.'', ag_temperature = 7 / 10,
      ag_maxTokens = 100, ag_enabledTools = [] \<rparr>"

definition sampleSession :: Session where
  "sampleSession = \<lparr> s_id = 20, s_tenantId = 1, s_agentId = 10, s_status = ACTIVE,
      s_demoMode = False \<rparr>"

definition freshState :: State where
  "freshState = \<lparr> tbl_messages = [], tbl_providerCalls = [], tbl_usageEvents = [],
      tbl_toolExecutions = [], tbl_sessions = [sampleSession], tbl_agents = [sampleAgent],
      sessionLocks = (\<lambda>k. None), nextId = 100, adapterCalls = [], lockLog = [] \<rparr>"

definition sampleWorld :: "Env \<Rightarrow> World" where
  "sampleWorld env = \<lparr> orchestratorEnv = env, toolRegistry = (\<lambda>n. None),
      uuidToLockKey = int, generateCorrelationId = (\<lambda>n. ''corr_generated'') \<rparr>"

definition helloK :: SendMessageInput where
  "helloK = \<lparr> in_content = ''hello'', in_idempotencyKey = Some ''K'',
      in_correlationId = Some ''corr_1'' \<rparr>"

definition twoRows :: "MessageData list" where
  "twoRows =
     [\<lparr> md_sessionId = 20, md_sequenceNumber = 0, md_idempotencyKey = None, md_role = USER,
        md_content = Text ''hello'', md_toolCalls = None, md_providerCallId = None \<rparr>,
      \<lparr> md_sessionId = 20, md_sequenceNumber = 0, md_idempotencyKey = None, md_role = ASSISTANT,
        md_content = Text ''Hello! How can I help?'', md_toolCalls = None,
        md_providerCallId = None \<rparr>]"

definition successfulCall :: ProviderCall where
  "successfulCall = \<lparr> pc_id = 101, pc_sessionId = 20, pc_correlationId = ''corr_1'',
      pc_provider = VENDOR_A, pc_isFallback = False, pc_tokensIn = 12, pc_tokensOut = 8,
      pc_latencyMs = 80, pc_status = SUCCESS, pc_errorCode = None, pc_errorMessage = None,
      pc_attemptNumber = 1, pc_billed = False \<rparr>"

definition unbilledState :: State where
  "unbilledState = freshState\<lparr> tbl_providerCalls := [successfulCall], nextId := 102 \<rparr>"


text \<open>The state in which a message is left when both vendors are down.\<close>

definition afterProviderFailure :: State where
  "afterProviderFailure = snd (sendMessage (sampleWorld failingEnv) 1 20 helloK freshState)"

text \<open>
  The state after a message with key \<open>key\<close> was answered by the fallback vendor: the two
  messages, the provider call and its usage event.
\<close>

definition assistantReply :: Message where
  "assistantReply = \<lparr> m_id = 102, m_sessionId = 20, m_sequenceNumber = 2,
      m_idempotencyKey = None, m_role = ASSISTANT, m_content = Text ''Hello! How can I help?'',
      m_toolCalls = None, m_providerCallId = Some 101 \<rparr>"

definition fallbackCall :: ProviderCall where
  "fallbackCall = \<lparr> pc_id = 101, pc_sessionId = 20, pc_correlationId = ''corr_1'',
      pc_provider = VENDOR_B, pc_isFallback = True, pc_tokensIn = 12, pc_tokensOut = 8,
      pc_latencyMs = 80, pc_status = SUCCESS, pc_errorCode = None, pc_errorMessage = None,
      pc_attemptNumber = 4, pc_billed = True \<rparr>"

definition answeredState :: "string option \<Rightarrow> State" where
  "answeredState key = freshState\<lparr> tbl_messages :=
          [\<lparr> m_id = 100, m_sessionId = 20, m_sequenceNumber = 1, m_idempotencyKey = key,
             m_role = USER, m_content = Text ''hello'', m_toolCalls = None,
             m_providerCallId = None \<rparr>, assistantReply],
        tbl_providerCalls := [fallbackCall],
        tbl_usageEvents :=
          [\<lparr> ue_id = 103, ue_tenantId = 1, ue_agentId = 10, ue_sessionId = 20,
             ue_providerCallId = 101, ue_provider = VENDOR_B, ue_tokensIn = 12,
             ue_tokensOut = 8, ue_totalTokens = 20, ue_costCents = 1,
             ue_pricingSnapshot = PRICING VENDOR_B \<rparr>],
        nextId := 104,
        adapterCalls := [VENDOR_A, VENDOR_A, VENDOR_A, VENDOR_B],
        lockLog := [LockAcquired 20, LockReleased 20] \<rparr>"

text \<open>A session of 51 messages, numbered from 1 to 51.\<close>

definition numberedMessage :: "nat \<Rightarrow> Message" where
  "numberedMessage i = \<lparr> m_id = i, m_sessionId = 20, m_sequenceNumber = int i,
      m_idempotencyKey = None, m_role = (if even i then ASSISTANT else USER),
      m_content = Text (replicate i (CHR ''x'')), m_toolCalls = None,
      m_providerCallId = None \<rparr>"

definition longSession :: State where
  "longSession = freshState\<lparr> tbl_messages := map numberedMessage [1..<52], nextId := 100 \<rparr>"

text \<open>A provider response that asks for a tool, which the sample world has not registered.\<close>

definition lookupCall :: ToolCall where
  "lookupCall = \<lparr> tc_id = ''call_1'', tc_name = ''InvoiceLookup'', tc_args = ''{orderId: ORD-1}'' \<rparr>"

definition lookupRequest :: ProviderResponse where
  "lookupRequest = \<lparr> pr_content = ''Let me look that up.'', pr_tokensIn = 12, pr_tokensOut = 8,
       pr_latencyMs = 80, pr_toolCalls = Some [lookupCall] \<rparr>"

definition sampleContext :: ToolContext where
  "sampleContext = \<lparr> ctx_tenantId = 1, ctx_sessionId = 20, ctx_correlationId = ''corr_1'' \<rparr>"








section \<open>Properties of the pricing function\<close>

lemmas double_eval = roundQuotient_def numberLiteral_def fromInt_def
  bitlen.simps roundAt_def roundHalfEven_def binaryExponent_def

text \<open>
  C9. The cost function was meant to be the exact formula rounded up, and so to lose at most
  one cent when a call is split in two. In binary floating point it is neither: for
  \<open>VENDOR_A\<close>, 500 input and 2250 output tokens cost exactly one cent by the formula
  but are charged two, likewise 4500 and 250, while their sum, 5000 and 2500, is charged two
  cents, one less than the bound \<open>2 + 2 - 1\<close> of the claim.
\<close>

theorem calculateCost_not_superadditive_within_one_cent:
  "calculateCost VENDOR_A 500 2250 = 2 \<and> exactCostCents VENDOR_A 500 2250 = 1 \<and>
   calculateCost VENDOR_A 4500 250 = 2 \<and> exactCostCents VENDOR_A 4500 250 = 1 \<and>
   calculateCost VENDOR_A (500 + 4500) (2250 + 250) = 2 \<and>
   \<not> (calculateCost VENDOR_A (500 + 4500) (2250 + 250)
        \<ge> calculateCost VENDOR_A 500 2250 + calculateCost VENDOR_A 4500 250 - 1)"
proof -
  have a: "calculateCost VENDOR_A 500 2250 = 2"
    by (simp add: calculateCost_def double_eval)
  have b: "calculateCost VENDOR_A 4500 250 = 2"
    by (simp add: calculateCost_def double_eval)
  have c: "calculateCost VENDOR_A (500 + 4500) (2250 + 250) = 2"
    by (simp add: calculateCost_def double_eval)
  have d: "exactCostCents VENDOR_A 500 2250 = 1"
    by (simp add: exactCostCents_def)
  have e: "exactCostCents VENDOR_A 4500 250 = 1"
    by (simp add: exactCostCents_def)
  show ?thesis
    unfolding a b c d e by simp
qed


section \<open>Properties of the orchestrator\<close>

lemma executeWithRetry_from_calls:
  "executeWithRetry_from a env request p fb rs calls = (r, rs', calls') \<Longrightarrow>
     \<exists>k. calls' = calls @ replicate k p \<and> k \<le> Suc (maxAttempts config_retry) - a \<and>
         (a \<le> maxAttempts config_retry \<longrightarrow> 1 \<le> k) \<and>
         rs_attemptNumber rs' = rs_attemptNumber rs + k \<and>
         attemptNumber r = rs_attemptNumber rs' \<and> provider r = p \<and> isFallback r = fb"
proof (induction a env request p fb rs calls arbitrary: r rs' calls'
       rule: executeWithRetry_from.induct)
  case (1 attempt env request prov isFb retryState calls)
  show ?case
  proof (cases "attempt \<le> maxAttempts config_retry")
    case False
    with "1.prems" show ?thesis
      by (auto simp add: executeWithRetry_from.simps [of attempt])
  next
    case le: True
    show ?thesis
    proof (cases "adapter_sendMessage env prov (length calls) request")
      case (Inr resp)
      with le "1.prems" have "calls' = calls @ replicate 1 prov"
        "rs_attemptNumber rs' = rs_attemptNumber retryState + 1"
        "attemptNumber r = rs_attemptNumber rs'" "provider r = prov" "isFallback r = isFb"
        by (auto simp: executeWithRetry_from.simps [of attempt] Let_def)
      with le show ?thesis by (intro exI [of _ 1]) simp
    next
      case (Inl err)
      show ?thesis
      proof (cases "\<not> isRetryableError err \<or> attempt \<ge> maxAttempts config_retry")
        case True
        with Inl le "1.prems" have "calls' = calls @ replicate 1 prov"
          "rs_attemptNumber rs' = rs_attemptNumber retryState + 1"
          "attemptNumber r = rs_attemptNumber rs'" "provider r = prov" "isFallback r = isFb"
          by (auto simp: executeWithRetry_from.simps [of attempt] Let_def)
        with le show ?thesis by (intro exI [of _ 1]) simp
      next
        case False
        define rs1 where "rs1 = retryState\<lparr> rs_attemptNumber := rs_attemptNumber retryState + 1 \<rparr>"
        define rs2 where "rs2 = rs1\<lparr> rs_errors := rs_errors rs1 @
                                       [(prov, err, rs_attemptNumber rs1)] \<rparr>"
        from False Inl le "1.prems"
        have rec: "executeWithRetry_from (attempt + 1) env request prov isFb rs2 (calls @ [prov])
                     = (r, rs', calls')"
          by (simp add: executeWithRetry_from.simps [of attempt] Let_def rs2_def rs1_def)
        have nl: "\<not> (\<not> isRetryableError err \<or> attempt \<ge> maxAttempts config_retry)"
          using False .
        have "\<exists>k. calls' = (calls @ [prov]) @ replicate k prov \<and>
                 k \<le> Suc (maxAttempts config_retry) - (attempt + 1) \<and>
                 (attempt + 1 \<le> maxAttempts config_retry \<longrightarrow> 1 \<le> k) \<and>
                 rs_attemptNumber rs' = rs_attemptNumber rs2 + k \<and>
                 attemptNumber r = rs_attemptNumber rs' \<and> provider r = prov \<and> isFallback r = isFb"
          by (rule "1.IH" [OF le rs1_def refl Inl rs2_def refl refl nl rec])
        then obtain k where k: "calls' = (calls @ [prov]) @ replicate k prov"
          "k \<le> Suc (maxAttempts config_retry) - (attempt + 1)"
          "rs_attemptNumber rs' = rs_attemptNumber rs2 + k"
          "attemptNumber r = rs_attemptNumber rs'" "provider r = prov" "isFallback r = isFb"
          by blast
        from k(1) have "calls' = calls @ replicate (Suc k) prov"
          by (simp add: replicate_append_same)
        moreover from k(2) False have "Suc k \<le> Suc (maxAttempts config_retry) - attempt" by arith
        moreover from k(3) have "rs_attemptNumber rs' = rs_attemptNumber retryState + Suc k"
          by (simp add: rs2_def rs1_def)
        ultimately show ?thesis using k(4-6) by (intro exI [of _ "Suc k"]) simp
      qed
    qed
  qed
qed


lemma executeWithRetry_calls:
  "executeWithRetry env request p rs fb calls = (r, rs', calls') \<Longrightarrow>
     \<exists>k. calls' = calls @ replicate k p \<and> 1 \<le> k \<and> k \<le> maxAttempts config_retry \<and>
         rs_attemptNumber rs' = rs_attemptNumber rs + k \<and>
         attemptNumber r = rs_attemptNumber rs' \<and> provider r = p \<and> isFallback r = fb"
proof -
  assume "executeWithRetry env request p rs fb calls = (r, rs', calls')"
  then have "executeWithRetry_from 1 env request p fb rs calls = (r, rs', calls')"
    by (simp add: executeWithRetry_def)
  from executeWithRetry_from_calls [OF this]
  obtain k where k: "calls' = calls @ replicate k p" "k \<le> Suc (maxAttempts config_retry) - 1"
    "1 \<le> maxAttempts config_retry \<longrightarrow> 1 \<le> k"
    "rs_attemptNumber rs' = rs_attemptNumber rs + k"
    "attemptNumber r = rs_attemptNumber rs'" "provider r = p" "isFallback r = fb"
    by blast
  have "1 \<le> maxAttempts config_retry" by (simp add: config_retry_def)
  with k show ?thesis by (intro exI [of _ k]) simp
qed

text \<open>A failed path leaves its last error, raised by the provider of the path.\<close>

lemma executeWithRetry_from_failure:
  "executeWithRetry_from a env request p fb rs calls = (r, rs', calls') \<Longrightarrow>
   a \<le> maxAttempts config_retry \<Longrightarrow> \<not> success r \<Longrightarrow>
     \<exists>e n. rs_errors rs' \<noteq> [] \<and> last (rs_errors rs') = (p, e, n) \<and>
           error r = Some \<lparr> pe_code = getErrorCode e, pe_message = errorMessage e,
                             pe_retryable = False, pe_retryAfterMs = getRetryAfterMs e \<rparr> \<and>
           adapter_sendMessage env p (length calls' - 1) request = Inl e"
proof (induction a env request p fb rs calls arbitrary: r rs' calls'
       rule: executeWithRetry_from.induct)
  case (1 attempt env request prov isFb retryState calls)
  note le = \<open>attempt \<le> maxAttempts config_retry\<close>
  show ?case
  proof (cases "adapter_sendMessage env prov (length calls) request")
    case (Inr resp)
    with le "1.prems" show ?thesis
      by (auto simp: executeWithRetry_from.simps [of attempt] Let_def)
  next
    case (Inl err)
    show ?thesis
    proof (cases "\<not> isRetryableError err \<or> attempt \<ge> maxAttempts config_retry")
      case True
      with Inl le "1.prems" show ?thesis
        by (auto simp: executeWithRetry_from.simps [of attempt] Let_def)
    next
      case False
      define rs1 where "rs1 = retryState\<lparr> rs_attemptNumber := rs_attemptNumber retryState + 1 \<rparr>"
      define rs2 where "rs2 = rs1\<lparr> rs_errors := rs_errors rs1 @
                                     [(prov, err, rs_attemptNumber rs1)] \<rparr>"
      from False Inl le "1.prems"
      have rec: "executeWithRetry_from (attempt + 1) env request prov isFb rs2 (calls @ [prov])
                   = (r, rs', calls')"
        by (simp add: executeWithRetry_from.simps [of attempt] Let_def rs2_def rs1_def)
      have nl: "\<not> (\<not> isRetryableError err \<or> attempt \<ge> maxAttempts config_retry)"
        using False .
      from False have le': "attempt + 1 \<le> maxAttempts config_retry" by simp
      show ?thesis
        by (rule "1.IH" [OF le rs1_def refl Inl rs2_def refl refl nl rec le' "1.prems"(3)])
    qed
  qed
qed


text \<open>A non-retryable error ends the path at once.\<close>

lemma executeWithRetry_from_not_retryable:
  assumes "attempt \<le> maxAttempts config_retry"
    and "adapter_sendMessage env p (length calls) request = Inl e"
    and "\<not> isRetryableError e"
  shows "\<exists>r rs'. executeWithRetry_from attempt env request p fb rs calls = (r, rs', calls @ [p]) \<and>
           \<not> success r \<and> attemptNumber r = rs_attemptNumber rs + 1 \<and>
           error r = Some \<lparr> pe_code = getErrorCode e, pe_message = errorMessage e,
                             pe_retryable = False, pe_retryAfterMs = getRetryAfterMs e \<rparr>"
  using assms by (simp add: executeWithRetry_from.simps [of attempt] Let_def)

lemma allAttemptsFailed_last:
  "rs_errors rs \<noteq> [] \<Longrightarrow> last (rs_errors rs) = (p, e, n) \<Longrightarrow>
     allAttemptsFailed cfg rs =
       Inr \<lparr> success = False, response = None,
             error = Some \<lparr> pe_code = (if isRateLimitError e then ''RATE_LIMITED''
                                       else ''PROVIDER_ERROR''),
                            pe_message = errorMessage e,
                            pe_retryable = False, pe_retryAfterMs = None \<rparr>,
             provider = p,
             isFallback = (case fallbackProvider cfg of Some f \<Rightarrow> p = f | None \<Rightarrow> False),
             attemptNumber = rs_attemptNumber rs, latencyMs = 0 \<rparr>"
  by (cases "rs_errors rs") (simp_all add: allAttemptsFailed_def)

text \<open>
  C6. Every call of \<^const>\<open>executeWithResilience\<close> extends the log of adapter calls by
  \<open>k1\<close> calls to the primary provider followed by \<open>k2\<close> calls to the fallback provider,
  each at most \<open>maxAttempts\<close> (which is 3), so at most \<open>2 * maxAttempts\<close> in all; the
  \<open>attemptNumber\<close> of the result is the total \<open>k1 + k2\<close>; and an attempt that fails with
  a non-retryable error is the last one of its path.
\<close>

theorem executeWithResilience_attempts_bounded:
  assumes run: "executeWithResilience env request cfg calls = (res, calls')"
  shows "maxAttempts config_retry = 3 \<and>
     (\<exists>k1 k2. calls' = calls @ replicate k1 (primaryProvider cfg)
                         @ replicate k2 (case fallbackProvider cfg of Some fb \<Rightarrow> fb
                                         | None \<Rightarrow> primaryProvider cfg) \<and>
        k1 \<le> maxAttempts config_retry \<and> k2 \<le> maxAttempts config_retry \<and>
        length calls' - length calls \<le> 2 * maxAttempts config_retry \<and>
        (\<forall>r. res = Inr r \<longrightarrow> attemptNumber r = k1 + k2 \<and>
                           attemptNumber r \<le> 2 * maxAttempts config_retry)) \<and>
     (\<forall>attempt p fb rs c e.
        attempt \<le> maxAttempts config_retry \<and>
        adapter_sendMessage env p (length c) request = Inl e \<and> \<not> isRetryableError e \<longrightarrow>
        (\<exists>r rs'. executeWithRetry_from attempt env request p fb rs c = (r, rs', c @ [p]) \<and>
                 \<not> success r))"
proof (intro conjI)
  show "maxAttempts config_retry = 3" by (simp add: config_retry_def)
next
  show "\<forall>attempt p fb rs c e.
        attempt \<le> maxAttempts config_retry \<and>
        adapter_sendMessage env p (length c) request = Inl e \<and> \<not> isRetryableError e \<longrightarrow>
        (\<exists>r rs'. executeWithRetry_from attempt env request p fb rs c = (r, rs', c @ [p]) \<and>
                 \<not> success r)"
    using executeWithRetry_from_not_retryable by blast
next
  let ?M = "maxAttempts config_retry"
  let ?P = "primaryProvider cfg"
  let ?F = "case fallbackProvider cfg of Some fb \<Rightarrow> fb | None \<Rightarrow> ?P"
  let ?rs0 = "\<lparr> rs_attemptNumber = 0, rs_errors = [] \<rparr>"
  obtain r1 rs1 c1 where p1: "executeWithRetry env request ?P ?rs0 False calls = (r1, rs1, c1)"
    by (cases "executeWithRetry env request ?P ?rs0 False calls") auto
  from executeWithRetry_calls [OF p1]
  obtain k1 where k1: "c1 = calls @ replicate k1 ?P" "1 \<le> k1" "k1 \<le> ?M"
    "rs_attemptNumber rs1 = k1" "attemptNumber r1 = rs_attemptNumber rs1"
    by auto
  have goal0: "res = (if success r1 then Inr r1 else allAttemptsFailed cfg rs1) \<Longrightarrow> calls' = c1 \<Longrightarrow>
      \<exists>k1 k2. calls' = calls @ replicate k1 ?P @ replicate k2 ?F \<and>
        k1 \<le> ?M \<and> k2 \<le> ?M \<and> length calls' - length calls \<le> 2 * ?M \<and>
        (\<forall>r. res = Inr r \<longrightarrow> attemptNumber r = k1 + k2 \<and> attemptNumber r \<le> 2 * ?M)"
    using k1 by (intro exI [of _ k1] exI [of _ 0])
      (auto simp: allAttemptsFailed_def split: list.splits prod.splits)
  show "\<exists>k1 k2. calls' = calls @ replicate k1 ?P @ replicate k2 ?F \<and>
        k1 \<le> ?M \<and> k2 \<le> ?M \<and> length calls' - length calls \<le> 2 * ?M \<and>
        (\<forall>r. res = Inr r \<longrightarrow> attemptNumber r = k1 + k2 \<and> attemptNumber r \<le> 2 * ?M)"
  proof (cases "success r1 \<or> fallbackProvider cfg = None \<or> fallbackProvider cfg = Some ?P")
    case True
    with run p1 have "res = (if success r1 then Inr r1 else allAttemptsFailed cfg rs1)" "calls' = c1"
      by (auto simp: executeWithResilience_def split: option.splits if_splits)
    then show ?thesis by (rule goal0)
  next
    case False
    then obtain fb where fb: "fallbackProvider cfg = Some fb" "fb \<noteq> ?P" "\<not> success r1"
      by (cases "fallbackProvider cfg") auto
    obtain r2 rs2 c2 where p2: "executeWithRetry env request fb rs1 True c1 = (r2, rs2, c2)"
      by (cases "executeWithRetry env request fb rs1 True c1") auto
    from executeWithRetry_calls [OF p2]
    obtain k2 where k2: "c2 = c1 @ replicate k2 fb" "1 \<le> k2" "k2 \<le> ?M"
      "rs_attemptNumber rs2 = rs_attemptNumber rs1 + k2" "attemptNumber r2 = rs_attemptNumber rs2"
      by auto
    from run p1 p2 fb
    have res: "res = (if success r2 then Inr r2 else allAttemptsFailed cfg rs2)" "calls' = c2"
      by (auto simp: executeWithResilience_def split: if_splits)
    show ?thesis
      using k1 k2 res fb
      by (intro exI [of _ k1] exI [of _ k2])
        (auto simp: allAttemptsFailed_def split: list.splits prod.splits)
  qed
qed


text \<open>
  C5. When the primary path ends without success, the fallback path runs (further adapter
  calls are made) if and only if a fallback provider is configured and differs from the
  primary one. It then makes between one and \<open>maxAttempts\<close> calls of its own, all to the
  fallback provider. Otherwise no further call is made and the result is a failure that
  names the primary provider, counts the primary attempts and carries the message of the
  last primary error.
\<close>

theorem executeWithResilience_fallback_iff:
  assumes primary: "executeWithRetry env request (primaryProvider cfg)
                      \<lparr> rs_attemptNumber = 0, rs_errors = [] \<rparr> False calls = (r1, rs1, calls1)"
    and failed: "\<not> success r1"
  shows "((snd (executeWithResilience env request cfg calls) \<noteq> calls1)
           = (\<exists>fb. fallbackProvider cfg = Some fb \<and> fb \<noteq> primaryProvider cfg)) \<and>
     (\<forall>fb. fallbackProvider cfg = Some fb \<and> fb \<noteq> primaryProvider cfg \<longrightarrow>
           (\<exists>k. snd (executeWithResilience env request cfg calls) = calls1 @ replicate k fb \<and>
                1 \<le> k \<and> k \<le> maxAttempts config_retry)) \<and>
     (fallbackProvider cfg = None \<or> fallbackProvider cfg = Some (primaryProvider cfg) \<longrightarrow>
           (\<exists>r e n. executeWithResilience env request cfg calls = (Inr r, calls1) \<and>
                \<not> success r \<and> provider r = primaryProvider cfg \<and>
                attemptNumber r = length calls1 - length calls \<and>
                attemptNumber r \<le> maxAttempts config_retry \<and>
                last (rs_errors rs1) = (primaryProvider cfg, e, n) \<and>
                adapter_sendMessage env (primaryProvider cfg) (length calls1 - 1) request = Inl e \<and>
                map_option pe_message (error r) = Some (errorMessage e)))"
proof -
  let ?P = "primaryProvider cfg"
  from executeWithRetry_calls [OF primary]
  obtain k1 where k1: "calls1 = calls @ replicate k1 ?P" "1 \<le> k1" "k1 \<le> maxAttempts config_retry"
    "rs_attemptNumber rs1 = k1"
    by auto
  have le1: "(1::nat) \<le> maxAttempts config_retry" by (simp add: config_retry_def)
  from primary have "executeWithRetry_from 1 env request ?P False
      \<lparr> rs_attemptNumber = 0, rs_errors = [] \<rparr> calls = (r1, rs1, calls1)"
    by (simp add: executeWithRetry_def)
  from executeWithRetry_from_failure [OF this le1 failed]
  obtain e n where e: "rs_errors rs1 \<noteq> []" "last (rs_errors rs1) = (?P, e, n)"
    "adapter_sendMessage env ?P (length calls1 - 1) request = Inl e"
    by blast
  have same: "fallbackProvider cfg = None \<or> fallbackProvider cfg = Some ?P \<Longrightarrow>
      executeWithResilience env request cfg calls = (allAttemptsFailed cfg rs1, calls1)"
    using primary failed by (auto simp: executeWithResilience_def)
  have other: "\<exists>k. snd (executeWithResilience env request cfg calls) = calls1 @ replicate k fb \<and>
                1 \<le> k \<and> k \<le> maxAttempts config_retry"
    if fb: "fallbackProvider cfg = Some fb" "fb \<noteq> ?P" for fb
  proof -
    obtain r2 rs2 c2 where p2: "executeWithRetry env request fb rs1 True calls1 = (r2, rs2, c2)"
      by (cases "executeWithRetry env request fb rs1 True calls1") auto
    from executeWithRetry_calls [OF p2]
    obtain k2 where k2: "c2 = calls1 @ replicate k2 fb" "1 \<le> k2" "k2 \<le> maxAttempts config_retry"
      by auto
    from primary failed fb p2 have "snd (executeWithResilience env request cfg calls) = c2"
      by (simp add: executeWithResilience_def)
    with k2 show ?thesis by auto
  qed
  have part2: "\<forall>fb. fallbackProvider cfg = Some fb \<and> fb \<noteq> primaryProvider cfg \<longrightarrow>
           (\<exists>k. snd (executeWithResilience env request cfg calls) = calls1 @ replicate k fb \<and>
                1 \<le> k \<and> k \<le> maxAttempts config_retry)"
    using other by blast
  have part1: "(snd (executeWithResilience env request cfg calls) \<noteq> calls1)
           = (\<exists>fb. fallbackProvider cfg = Some fb \<and> fb \<noteq> primaryProvider cfg)"
  proof (cases "fallbackProvider cfg = None \<or> fallbackProvider cfg = Some ?P")
    case True
    from same [OF True] True show ?thesis by auto
  next
    case False
    then obtain fb where fb: "fallbackProvider cfg = Some fb" "fb \<noteq> ?P"
      by (cases "fallbackProvider cfg") auto
    from other [OF fb] obtain k where
      "snd (executeWithResilience env request cfg calls) = calls1 @ replicate k fb" "1 \<le> k"
      by blast
    then have "snd (executeWithResilience env request cfg calls) \<noteq> calls1"
      by (cases k) auto
    with fb show ?thesis by simp
  qed
  have part3: "fallbackProvider cfg = None \<or> fallbackProvider cfg = Some (primaryProvider cfg) \<longrightarrow>
           (\<exists>r e n. executeWithResilience env request cfg calls = (Inr r, calls1) \<and>
                \<not> success r \<and> provider r = primaryProvider cfg \<and>
                attemptNumber r = length calls1 - length calls \<and>
                attemptNumber r \<le> maxAttempts config_retry \<and>
                last (rs_errors rs1) = (primaryProvider cfg, e, n) \<and>
                adapter_sendMessage env (primaryProvider cfg) (length calls1 - 1) request = Inl e \<and>
                map_option pe_message (error r) = Some (errorMessage e))"
  proof
    assume a: "fallbackProvider cfg = None \<or> fallbackProvider cfg = Some (primaryProvider cfg)"
    show "\<exists>r e n. executeWithResilience env request cfg calls = (Inr r, calls1) \<and>
                \<not> success r \<and> provider r = primaryProvider cfg \<and>
                attemptNumber r = length calls1 - length calls \<and>
                attemptNumber r \<le> maxAttempts config_retry \<and>
                last (rs_errors rs1) = (primaryProvider cfg, e, n) \<and>
                adapter_sendMessage env (primaryProvider cfg) (length calls1 - 1) request = Inl e \<and>
                map_option pe_message (error r) = Some (errorMessage e)"
      using same [OF a] e k1 allAttemptsFailed_last [OF e(1) e(2), of cfg]
      by (intro exI [of _ "projr (allAttemptsFailed cfg rs1)"] exI [of _ e] exI [of _ n]) simp
  qed
  from part1 part2 part3 show ?thesis by (intro conjI)
qed


lemmas orchestrator_eval = executeWithResilience_def executeWithRetry_def
  executeWithRetry_from.simps allAttemptsFailed_def config_retry_def Let_def
  failingEnv_def primaryDownEnv_def agentConfigAB_def serverError_def


text \<open>
  The bound is reached when both vendors answer every attempt with a retryable error:
  three calls to each, attempt number six.
\<close>

theorem executeWithResilience_attempts_bounded_witness:
  "snd (executeWithResilience failingEnv demoRequest agentConfigAB [])
     = [VENDOR_A, VENDOR_A, VENDOR_A, VENDOR_B, VENDOR_B, VENDOR_B] \<and>
   length (snd (executeWithResilience failingEnv demoRequest agentConfigAB []))
     - length ([] :: ProviderType list) \<le> 2 * maxAttempts config_retry \<and>
   (\<exists>r. fst (executeWithResilience failingEnv demoRequest agentConfigAB []) = Inr r \<and>
        attemptNumber r = 6)"
proof -
  let ?run = "executeWithResilience failingEnv demoRequest agentConfigAB []"
  have calls: "snd ?run = [VENDOR_A, VENDOR_A, VENDOR_A, VENDOR_B, VENDOR_B, VENDOR_B]"
    by (simp add: orchestrator_eval)
  have res: "\<exists>r. fst ?run = Inr r \<and> attemptNumber r = 6"
    by (simp add: orchestrator_eval)
  have "?run = (fst ?run, snd ?run)" by simp
  from executeWithResilience_attempts_bounded [OF this]
  have "length (snd ?run) - length ([] :: ProviderType list) \<le> 2 * maxAttempts config_retry"
    by (elim conjE exE) assumption
  with calls res show ?thesis by simp
qed

text \<open>
  With \<open>VENDOR_A\<close> as primary and \<open>VENDOR_B\<close> as fallback, both failing, the three
  primary attempts are followed by three fallback attempts.
\<close>

theorem executeWithResilience_fallback_iff_witness:
  "\<not> success (fst (executeWithRetry failingEnv demoRequest VENDOR_A
                     \<lparr> rs_attemptNumber = 0, rs_errors = [] \<rparr> False [])) \<and>
   fallbackProvider agentConfigAB = Some VENDOR_B \<and>
   snd (executeWithResilience failingEnv demoRequest agentConfigAB [])
     \<noteq> snd (snd (executeWithRetry failingEnv demoRequest VENDOR_A
                     \<lparr> rs_attemptNumber = 0, rs_errors = [] \<rparr> False [])) \<and>
   snd (executeWithResilience failingEnv demoRequest agentConfigAB [])
     = [VENDOR_A, VENDOR_A, VENDOR_A] @ replicate 3 VENDOR_B"
proof -
  let ?rs0 = "\<lparr> rs_attemptNumber = 0, rs_errors = [] \<rparr>"
  let ?p = "executeWithRetry failingEnv demoRequest (primaryProvider agentConfigAB) ?rs0 False []"
  have P: "primaryProvider agentConfigAB = VENDOR_A" by (simp add: agentConfigAB_def)
  have F: "fallbackProvider agentConfigAB = Some VENDOR_B" by (simp add: agentConfigAB_def)
  have primary: "?p = (fst ?p, fst (snd ?p), snd (snd ?p))" by simp
  have failed: "\<not> success (fst ?p)" by (simp add: orchestrator_eval)
  have calls: "snd (executeWithResilience failingEnv demoRequest agentConfigAB [])
     = [VENDOR_A, VENDOR_A, VENDOR_A] @ replicate 3 VENDOR_B"
    by (simp add: orchestrator_eval numeral_3_eq_3)
  from executeWithResilience_fallback_iff [OF primary failed] F P
  have "snd (executeWithResilience failingEnv demoRequest agentConfigAB []) \<noteq> snd (snd ?p)"
    by simp
  with failed F calls show ?thesis unfolding P by simp
qed


section \<open>Properties of the sequence generator\<close>

lemma fold_max_Max: "fold max xs (x::int) = Max (set (x # xs))"
proof (induction xs arbitrary: x)
  case Nil
  show ?case by simp
next
  case (Cons y ys)
  have "fold max (y # ys) x = fold max ys (max y x)" by simp
  also have "\<dots> = Max (set (max y x # ys))" by (rule Cons.IH)
  also have "\<dots> = Max (set (x # y # ys))"
    by (cases ys) (simp_all add: max.commute max.left_commute max.assoc)
  finally show ?case .
qed

lemma get_next_message_sequence_Max:
  "get_next_message_sequence st sid =
     (if sessionMessages st sid = [] then 1
      else Max (set (sessionSequence st sid)) + 1)"
  by (cases "sessionMessages st sid")
    (simp_all add: get_next_message_sequence_def sessionSequence_def fold_max_Max del: fold_simps)

lemma Max_oneToN: "0 < n \<Longrightarrow> Max (set (oneToN n)) = int n"
proof -
  assume "0 < n"
  have "set (oneToN n) = int ` {1..n}"
    by (auto simp: oneToN_def)
  moreover have "Max (int ` {1..n}) = int n"
    using \<open>0 < n\<close> by (intro Max_eqI) auto
  ultimately show ?thesis by simp
qed

lemma next_of_contiguous:
  assumes "sessionSequence st sid = oneToN n"
  shows "get_next_message_sequence st sid = int n + 1"
proof (cases "n = 0")
  case True
  with assms have "sessionMessages st sid = []"
    by (simp add: sessionSequence_def oneToN_def)
  then show ?thesis using True by (simp add: get_next_message_sequence_Max)
next
  case False
  with assms have "sessionMessages st sid \<noteq> []"
    by (auto simp: sessionSequence_def oneToN_def)
  then show ?thesis
    using assms False by (simp add: get_next_message_sequence_Max Max_oneToN)
qed

lemma oneToN_Suc: "oneToN (Suc n) = oneToN n @ [int n + 1]"
  by (simp add: oneToN_def)

lemma sessionSequence_append:
  "sessionSequence (st\<lparr> tbl_messages := tbl_messages st @ [row], nextId := k \<rparr>) sid =
     sessionSequence st sid @ (if m_sessionId row = sid then [m_sequenceNumber row] else [])"
  by (simp add: sessionSequence_def sessionMessages_def)


lemma below_next_sequence:
  assumes "m \<in> set (tbl_messages st)" "m_sessionId m = sid"
  shows "m_sequenceNumber m < get_next_message_sequence st sid"
proof -
  from assms have mem: "m \<in> set (sessionMessages st sid)"
    by (simp add: sessionMessages_def)
  then have ne: "sessionMessages st sid \<noteq> []" by auto
  from mem have "m_sequenceNumber m \<in> set (sessionSequence st sid)"
    by (simp add: sessionSequence_def)
  then have "m_sequenceNumber m \<le> Max (set (sessionSequence st sid))"
    by (intro Max_ge) auto
  with ne show ?thesis by (simp add: get_next_message_sequence_Max)
qed

lemma allocateAndInsert_result:
  "allocateAndInsert d st =
     (if md_idempotencyKey d \<noteq> None \<and>
         (\<exists>m \<in> set (tbl_messages st). m_sessionId m = md_sessionId d \<and>
                                      m_idempotencyKey m = md_idempotencyKey d)
      then (Inl (PrismaUniqueViolation ''messages_sessionId_idempotencyKey_key''), st)
      else
        (Inr (messageRow (nextId st)
                (d\<lparr> md_sequenceNumber := get_next_message_sequence st (md_sessionId d) \<rparr>)),
         st\<lparr> tbl_messages := tbl_messages st @
                [messageRow (nextId st)
                   (d\<lparr> md_sequenceNumber := get_next_message_sequence st (md_sessionId d) \<rparr>)],
             nextId := nextId st + 1 \<rparr>))"
proof -
  have nc: "m_sequenceNumber m \<noteq> get_next_message_sequence st (md_sessionId d)"
    if "m \<in> set (tbl_messages st)" "m_sessionId m = md_sessionId d" for m
    using below_next_sequence [OF that] by simp
  show ?thesis
  proof (cases "md_idempotencyKey d \<noteq> None \<and>
         (\<exists>m \<in> set (tbl_messages st). m_sessionId m = md_sessionId d \<and>
                                      m_idempotencyKey m = md_idempotencyKey d)")
    case True
    then show ?thesis
      unfolding allocateAndInsert_def bindM_def getNextSequenceNumber_def message_create_def
      by simp
  next
    case False
    then show ?thesis
      unfolding allocateAndInsert_def bindM_def getNextSequenceNumber_def message_create_def
      using nc by auto
  qed
qed

lemma allocateAndInsert_step:
  assumes "sessionSequence st sid = oneToN n"
  shows "sessionSequence (snd (allocateAndInsert d st)) sid =
           (if md_sessionId d = sid \<and> \<not> isl (fst (allocateAndInsert d st))
            then oneToN (Suc n) else oneToN n)"
  using assms next_of_contiguous [OF assms]
  by (simp add: allocateAndInsert_result messageRow_def sessionSequence_append oneToN_Suc)

lemma allocateAndInsert_no_key:
  "md_idempotencyKey d = None \<Longrightarrow> \<not> isl (fst (allocateAndInsert d st))"
  by (simp add: allocateAndInsert_result Let_def)

lemma insertAll_contiguous:
  "sessionSequence st sid = oneToN n \<Longrightarrow>
     \<exists>k. sessionSequence (insertAll ds st) sid = oneToN k \<and> n \<le> k \<and>
         k \<le> n + length (filter (\<lambda>d. md_sessionId d = sid) ds) \<and>
         ((\<forall>d \<in> set ds. md_idempotencyKey d = None) \<longrightarrow>
            k = n + length (filter (\<lambda>d. md_sessionId d = sid) ds))"
proof (induction ds arbitrary: st n)
  case Nil
  then show ?case by simp
next
  case (Cons d ds)
  let ?st1 = "snd (allocateAndInsert d st)"
  let ?grow = "md_sessionId d = sid \<and> \<not> isl (fst (allocateAndInsert d st))"
  let ?n1 = "if ?grow then Suc n else n"
  have step: "sessionSequence ?st1 sid = oneToN ?n1"
    using allocateAndInsert_step [OF Cons.prems, of d] by simp
  from Cons.IH [OF step] obtain k where k:
    "sessionSequence (insertAll ds ?st1) sid = oneToN k" "?n1 \<le> k"
    "k \<le> ?n1 + length (filter (\<lambda>d. md_sessionId d = sid) ds)"
    "(\<forall>d \<in> set ds. md_idempotencyKey d = None) \<longrightarrow>
        k = ?n1 + length (filter (\<lambda>d. md_sessionId d = sid) ds)"
    by blast
  have "(\<forall>x \<in> set (d # ds). md_idempotencyKey x = None) \<longrightarrow>
          k = n + length (filter (\<lambda>d. md_sessionId d = sid) (d # ds))"
    using k(4) allocateAndInsert_no_key [of d st] by auto
  moreover have "n \<le> k" using k(2) by (simp split: if_splits)
  moreover have "k \<le> n + length (filter (\<lambda>d. md_sessionId d = sid) (d # ds))"
    using k(3) by (simp split: if_splits)
  ultimately show ?case using k(1) by (intro exI [of _ k]) simp
qed

text \<open>
  C4. \<^const>\<open>getNextSequenceNumber\<close> returns one for a session without messages and
  otherwise the largest sequence number of the session plus one, and leaves the state as it
  is. Hence, when the sequence numbers of a session are \<open>1, ..., n\<close>, the next one is
  \<open>n + 1\<close>, and after any series of allocations each followed by its insert (into this
  or other sessions) they are \<open>1, ..., k\<close> again: strictly increasing, without gaps,
  starting at one, with one more number for every row inserted into the session.
\<close>

theorem getNextSequenceNumber_max_plus_one:
  "getNextSequenceNumber sid st =
     (Inr (if sessionMessages st sid = [] then 1
           else Max (set (sessionSequence st sid)) + 1), st) \<and>
   (sessionSequence st sid = oneToN n \<longrightarrow>
      get_next_message_sequence st sid = int n + 1 \<and>
      (\<forall>ds. \<exists>k. sessionSequence (insertAll ds st) sid = oneToN k \<and> n \<le> k \<and>
         k \<le> n + length (filter (\<lambda>d. md_sessionId d = sid) ds) \<and>
         ((\<forall>d \<in> set ds. md_idempotencyKey d = None) \<longrightarrow>
            k = n + length (filter (\<lambda>d. md_sessionId d = sid) ds))))"
  using insertAll_contiguous [of st sid n] next_of_contiguous [of st sid n]
  by (simp add: getNextSequenceNumber_def get_next_message_sequence_Max)

text \<open>A user message and an assistant message in the empty session get the numbers 1 and 2.\<close>

theorem getNextSequenceNumber_max_plus_one_witness:
  "sessionSequence freshState 20 = oneToN 0 \<and>
   get_next_message_sequence freshState 20 = 1 \<and>
   sessionSequence (insertAll twoRows freshState) 20 = [1, 2]"
proof -
  have h: "sessionSequence freshState 20 = oneToN 0"
    by (simp add: sessionSequence_def sessionMessages_def freshState_def oneToN_def)
  have keys: "\<forall>d \<in> set twoRows. md_idempotencyKey d = None"
    by (simp add: twoRows_def)
  have cnt: "length (filter (\<lambda>d. md_sessionId d = 20) twoRows) = 2"
    by (simp add: twoRows_def)
  from getNextSequenceNumber_max_plus_one [of 20 freshState 0] h
  have nxt: "get_next_message_sequence freshState 20 = 1"
    and all: "\<forall>ds. \<exists>k. sessionSequence (insertAll ds freshState) 20 = oneToN k \<and> 0 \<le> k \<and>
         k \<le> 0 + length (filter (\<lambda>d. md_sessionId d = 20) ds) \<and>
         ((\<forall>d \<in> set ds. md_idempotencyKey d = None) \<longrightarrow>
            k = 0 + length (filter (\<lambda>d. md_sessionId d = 20) ds))"
    by simp_all
  from all obtain k where k: "sessionSequence (insertAll twoRows freshState) 20 = oneToN k"
    "(\<forall>d \<in> set twoRows. md_idempotencyKey d = None) \<longrightarrow>
        k = 0 + length (filter (\<lambda>d. md_sessionId d = 20) twoRows)"
    by blast
  from k(2) keys cnt have "k = 2" by simp
  with k(1) have "sessionSequence (insertAll twoRows freshState) 20 = [1, 2]"
    by (simp add: oneToN_def upt_rec)
  with h nxt show ?thesis by simp
qed


section \<open>Properties of the billing recorder\<close>

lemma count_distinct_le_one:
  "distinct (map f xs) \<Longrightarrow> length (filter (\<lambda>x. f x = a) xs) \<le> 1"
  by (induction xs) (auto simp: filter_empty_conv image_iff)

lemma count_distinct_mem:
  "distinct (map f xs) \<Longrightarrow> a \<in> f ` set xs \<Longrightarrow> length (filter (\<lambda>x. f x = a) xs) = 1"
  by (induction xs) (auto simp: filter_empty_conv image_iff)

lemma usageEventCount_le_one:
  "billingConsistent st \<Longrightarrow> usageEventCount st i \<le> 1"
  using count_distinct_le_one [of ue_providerCallId "tbl_usageEvents st" i]
  by (simp add: billingConsistent_def usageEventCount_def)

lemma createUsageEvent_returns:
  "fst (createUsageEvent tenantId agentId sessionId demoMode providerCall st) = Inr ()"
  by (simp add: createUsageEvent_def Let_def)

lemma createUsageEvent_bills:
  assumes inv: "billingConsistent st"
    and row: "row \<in> set (tbl_providerCalls st)" "pc_id row = pc_id providerCall"
    and ok: "pc_status providerCall = SUCCESS" "\<not> demoMode"
  shows "billingConsistent (snd (createUsageEvent tenantId agentId sessionId demoMode providerCall st))"
    and "usageEventCount (snd (createUsageEvent tenantId agentId sessionId demoMode providerCall st))
           (pc_id providerCall) = 1"
    and "tbl_providerCalls (snd (createUsageEvent tenantId agentId sessionId demoMode providerCall st))
           = map (\<lambda>pc. if pc_id pc = pc_id providerCall then pc\<lparr> pc_billed := True \<rparr> else pc) (tbl_providerCalls st)
         \<or> snd (createUsageEvent tenantId agentId sessionId demoMode providerCall st) = st"
proof -
  let ?i = "pc_id providerCall"
  let ?st' = "snd (createUsageEvent tenantId agentId sessionId demoMode providerCall st)"
  let ?mark = "\<lambda>pc. if pc_id pc = ?i \<and> \<not> pc_billed pc then pc\<lparr> pc_billed := True \<rparr> else pc"
  from inv have d1: "distinct (map pc_id (tbl_providerCalls st))"
    and d2: "distinct (map ue_providerCallId (tbl_usageEvents st))"
    and b: "\<And>pc. pc \<in> set (tbl_providerCalls st) \<Longrightarrow> pc_billed pc \<Longrightarrow>
                 pc_id pc \<in> ue_providerCallId ` set (tbl_usageEvents st)"
    by (auto simp: billingConsistent_def)
  have ids: "map pc_id (map ?mark (tbl_providerCalls st)) = map pc_id (tbl_providerCalls st)"
    by (induction "tbl_providerCalls st") auto
  show "billingConsistent ?st'" "usageEventCount ?st' ?i = 1"
    "tbl_providerCalls ?st'
           = map (\<lambda>pc. if pc_id pc = ?i then pc\<lparr> pc_billed := True \<rparr> else pc) (tbl_providerCalls st)
         \<or> ?st' = st"
  proof -
    consider (billed) "pc_billed row"
      | (stale) "\<not> pc_billed row" "?i \<in> ue_providerCallId ` set (tbl_usageEvents st)"
      | (fresh) "\<not> pc_billed row" "?i \<notin> ue_providerCallId ` set (tbl_usageEvents st)"
      by blast
    then have "billingConsistent ?st' \<and> usageEventCount ?st' ?i = 1 \<and>
       (tbl_providerCalls ?st'
           = map (\<lambda>pc. if pc_id pc = ?i then pc\<lparr> pc_billed := True \<rparr> else pc) (tbl_providerCalls st)
         \<or> ?st' = st)"
    proof cases
      case billed
      have none: "filter (\<lambda>pc. pc_id pc = ?i \<and> \<not> pc_billed pc) (tbl_providerCalls st) = []"
      proof -
        have "pc = row" if "pc \<in> set (tbl_providerCalls st)" "pc_id pc = ?i" for pc
          using that row d1 by (metis distinct_map inj_onD)
        with billed show ?thesis by (auto simp: filter_empty_conv)
      qed
      have same: "map ?mark (tbl_providerCalls st) = tbl_providerCalls st"
        using none by (auto simp: filter_empty_conv intro: map_idI)
      have st': "?st' = st"
        using ok none same by (simp add: createUsageEvent_def Let_def)
      from b [OF row(1) billed] row(2) have "?i \<in> ue_providerCallId ` set (tbl_usageEvents st)"
        by simp
      with d2 have "usageEventCount st ?i = 1"
        by (simp add: usageEventCount_def count_distinct_mem)
      with st' inv show ?thesis by simp
    next
      case stale
      have some: "filter (\<lambda>pc. pc_id pc = ?i \<and> \<not> pc_billed pc) (tbl_providerCalls st) \<noteq> []"
        using row stale(1) by (auto simp: filter_empty_conv)
      have st': "?st' = st"
        using ok some stale(2) by (auto simp: createUsageEvent_def Let_def)
      from d2 stale(2) have "usageEventCount st ?i = 1"
        by (simp add: usageEventCount_def count_distinct_mem)
      with st' inv show ?thesis by simp
    next
      case fresh
      have some: "filter (\<lambda>pc. pc_id pc = ?i \<and> \<not> pc_billed pc) (tbl_providerCalls st) \<noteq> []"
        using row fresh(1) by (auto simp: filter_empty_conv)
      have nf': "ue_providerCallId ue \<noteq> ?i" if "ue \<in> set (tbl_usageEvents st)" for ue
        using fresh(2) that by (metis image_eqI)
      then have nf: "\<not> (\<exists>ue \<in> set (tbl_usageEvents st). ue_providerCallId ue = ?i)"
        by blast
      let ?ue = "\<lparr> ue_id = nextId st, ue_tenantId = tenantId, ue_agentId = agentId,
                        ue_sessionId = sessionId, ue_providerCallId = ?i,
                        ue_provider = pc_provider providerCall,
                        ue_tokensIn = pc_tokensIn providerCall,
                        ue_tokensOut = pc_tokensOut providerCall,
                        ue_totalTokens = pc_tokensIn providerCall + pc_tokensOut providerCall,
                        ue_costCents = calculateCost (pc_provider providerCall)
                           (pc_tokensIn providerCall) (pc_tokensOut providerCall),
                        ue_pricingSnapshot = getPricingSnapshot (pc_provider providerCall) \<rparr>"
      have st': "?st' = st\<lparr> tbl_providerCalls := map ?mark (tbl_providerCalls st),
                            tbl_usageEvents := tbl_usageEvents st @ [?ue],
                            nextId := nextId st + 1 \<rparr>"
        using ok some nf by (simp add: createUsageEvent_def Let_def)
      have cnt: "usageEventCount ?st' ?i = 1"
        using nf' by (simp add: st' usageEventCount_def filter_empty_conv)
      have unbilled: "\<not> pc_billed pc" if "pc \<in> set (tbl_providerCalls st)" "pc_id pc = ?i" for pc
      proof -
        from that row d1 have "pc = row" by (metis distinct_map inj_onD)
        with fresh(1) show ?thesis by simp
      qed
      have mark: "map ?mark (tbl_providerCalls st)
          = map (\<lambda>pc. if pc_id pc = ?i then pc\<lparr> pc_billed := True \<rparr> else pc) (tbl_providerCalls st)"
        using unbilled by (intro map_cong) auto
      have ids': "map (pc_id \<circ> ?mark) (tbl_providerCalls st) = map pc_id (tbl_providerCalls st)"
        using ids by simp
      have "billingConsistent ?st'"
        unfolding billingConsistent_def st'
        using d1 d2 fresh(2) b by (auto simp: ids' image_iff)
      moreover have "tbl_providerCalls ?st' = map ?mark (tbl_providerCalls st)"
        by (simp add: st')
      with mark have "tbl_providerCalls ?st'
          = map (\<lambda>pc. if pc_id pc = ?i then pc\<lparr> pc_billed := True \<rparr> else pc) (tbl_providerCalls st)"
        by simp
      ultimately show ?thesis using cnt by blast
    qed
    then show "billingConsistent ?st'" "usageEventCount ?st' ?i = 1"
      "tbl_providerCalls ?st'
           = map (\<lambda>pc. if pc_id pc = ?i then pc\<lparr> pc_billed := True \<rparr> else pc) (tbl_providerCalls st)
         \<or> ?st' = st"
      by blast+
  qed
qed


lemma createUsageEvent_keeps_row:
  assumes inv: "billingConsistent st"
    and row: "pc_id providerCall \<in> pc_id ` set (tbl_providerCalls st)"
    and ok: "pc_status providerCall = SUCCESS" "\<not> demoMode"
  shows "pc_id providerCall \<in> pc_id ` set (tbl_providerCalls
           (snd (createUsageEvent tenantId agentId sessionId demoMode providerCall st)))"
proof -
  from row obtain r where r: "r \<in> set (tbl_providerCalls st)" "pc_id r = pc_id providerCall"
    by auto
  let ?upd = "\<lambda>pc. if pc_id pc = pc_id providerCall then pc\<lparr> pc_billed := True \<rparr> else pc"
  have "pc_id ` set (map ?upd (tbl_providerCalls st)) = pc_id ` set (tbl_providerCalls st)"
  proof -
    have "map pc_id (map ?upd (tbl_providerCalls st)) = map pc_id (tbl_providerCalls st)"
      by (induction "tbl_providerCalls st") auto
    then have "set (map pc_id (map ?upd (tbl_providerCalls st))) = set (map pc_id (tbl_providerCalls st))"
      by simp
    then show ?thesis by (simp only: set_map)
  qed
  with createUsageEvent_bills(3) [OF inv r ok, of tenantId agentId sessionId] row
  show ?thesis
    by (elim disjE) simp_all
qed

lemma createUsageEvent_times_once:
  assumes inv: "billingConsistent st"
    and row: "pc_id providerCall \<in> pc_id ` set (tbl_providerCalls st)"
    and ok: "pc_status providerCall = SUCCESS" "\<not> demoMode"
  shows "fst (createUsageEvent_times n tenantId agentId sessionId demoMode providerCall st)
           = replicate n (Inr ()) \<and>
         usageEventCount (snd (createUsageEvent_times n tenantId agentId sessionId demoMode
                                 providerCall st)) (pc_id providerCall)
           = (if n = 0 then usageEventCount st (pc_id providerCall) else 1) \<and>
         billingConsistent (snd (createUsageEvent_times n tenantId agentId sessionId demoMode
                                   providerCall st))"
  using inv row
proof (induction n arbitrary: st)
  case 0
  then show ?case by simp
next
  case (Suc n)
  let ?c = "createUsageEvent tenantId agentId sessionId demoMode providerCall st"
  from Suc.prems(2) obtain r where r: "r \<in> set (tbl_providerCalls st)"
    "pc_id r = pc_id providerCall"
    by auto
  note step = createUsageEvent_bills [OF Suc.prems(1) r ok, of tenantId agentId sessionId]
  note keep = createUsageEvent_keeps_row [OF Suc.prems(1) Suc.prems(2) ok, of tenantId agentId sessionId]
  note ih = Suc.IH [OF step(1) keep]
  have out: "fst ?c = Inr ()" by (rule createUsageEvent_returns)
  obtain o1 s1 where c: "?c = (o1, s1)" by (cases ?c)
  with out have o1: "o1 = Inr ()" by simp
  from c step(2) have cnt1: "usageEventCount s1 (pc_id providerCall) = 1" by simp
  from ih c cnt1 o1 show ?case
    by (auto simp: split_beta)
qed

text \<open>
  C1. In a state that is consistent for billing, take a provider call that is stored, has
  status \<open>SUCCESS\<close> and belongs to a session that is not a demo. The number of usage events
  that refer to it is at most one; however often \<^const>\<open>createUsageEvent\<close> is invoked for
  it, every invocation returns without an error, and from the first invocation on the
  number is exactly one.
\<close>

theorem createUsageEvent_exactly_once:
  assumes "billingConsistent st"
    and "pc_id providerCall \<in> pc_id ` set (tbl_providerCalls st)"
    and "pc_status providerCall = SUCCESS" and "\<not> demoMode"
  shows "usageEventCount st (pc_id providerCall) \<le> 1 \<and>
     (\<forall>n. fst (createUsageEvent_times n tenantId agentId sessionId demoMode providerCall st)
             = replicate n (Inr ()) \<and>
          usageEventCount (snd (createUsageEvent_times n tenantId agentId sessionId demoMode
                                  providerCall st)) (pc_id providerCall)
             = (if n = 0 then usageEventCount st (pc_id providerCall) else 1))"
  using createUsageEvent_times_once [OF assms] usageEventCount_le_one [OF assms(1)]
  by blast

text \<open>Billing a stored successful call three times leaves one usage event.\<close>

theorem createUsageEvent_exactly_once_witness:
  "billingConsistent unbilledState \<and>
   pc_id successfulCall \<in> pc_id ` set (tbl_providerCalls unbilledState) \<and>
   pc_status successfulCall = SUCCESS \<and>
   usageEventCount unbilledState (pc_id successfulCall) = 0 \<and>
   fst (createUsageEvent_times 3 1 10 20 False successfulCall unbilledState)
     = [Inr (), Inr (), Inr ()] \<and>
   usageEventCount (snd (createUsageEvent_times 3 1 10 20 False successfulCall unbilledState))
     (pc_id successfulCall) = 1"
proof -
  have a: "billingConsistent unbilledState"
    by (simp add: billingConsistent_def unbilledState_def successfulCall_def freshState_def)
  have b: "pc_id successfulCall \<in> pc_id ` set (tbl_providerCalls unbilledState)"
    by (simp add: unbilledState_def)
  have c: "pc_status successfulCall = SUCCESS"
    by (simp add: successfulCall_def)
  have d: "usageEventCount unbilledState (pc_id successfulCall) = 0"
    by (simp add: usageEventCount_def unbilledState_def freshState_def)
  have e: "\<not> False" by simp
  from createUsageEvent_exactly_once [OF a b c e, where tenantId = 1 and agentId = 10
      and sessionId = 20]
  have "\<forall>n. fst (createUsageEvent_times n 1 10 20 False successfulCall unbilledState)
             = replicate n (Inr ()) \<and>
          usageEventCount (snd (createUsageEvent_times n 1 10 20 False successfulCall
                                  unbilledState)) (pc_id successfulCall)
             = (if n = 0 then usageEventCount unbilledState (pc_id successfulCall) else 1)"
    by (elim conjE)
  from this [rule_format, of 3]
  have "fst (createUsageEvent_times 3 1 10 20 False successfulCall unbilledState)
          = replicate 3 (Inr ())"
    and "usageEventCount (snd (createUsageEvent_times 3 1 10 20 False successfulCall
                                 unbilledState)) (pc_id successfulCall) = 1"
    by simp_all
  with a b c d show ?thesis by (simp add: numeral_3_eq_3)
qed


section \<open>Properties of the history reader\<close>

lemma mapResult_map:
  "(\<And>x. x \<in> set xs \<Longrightarrow> f x = Inr (g x)) \<Longrightarrow> mapResult f xs = Inr (map g xs)"
  by (induction xs) simp_all

lemma historyRows_longSession: "historyRows longSession 20 = map numberedMessage [1..<51]"
proof -
  have all: "sessionMessages longSession 20 = map numberedMessage [1..<52]"
    by (simp add: sessionMessages_def longSession_def numberedMessage_def filter_map o_def)
  have "map m_sequenceNumber (map numberedMessage [1..<52]) = map int [1..<52]"
    by (simp add: numberedMessage_def o_def)
  moreover have "sorted (map int [1..<52])"
    by (simp add: sorted_map strict_sorted_iff [symmetric] del: upt_Suc)
  ultimately have "sorted (map m_sequenceNumber (map numberedMessage [1..<52]))"
    by (simp only:)
  then have "sort_key m_sequenceNumber (map numberedMessage [1..<52])
      = map numberedMessage [1..<52]"
    by (rule sort_key_id_if_sorted)
  then have "historyRows longSession 20 = take 50 (map numberedMessage [1..<52])"
    by (simp add: historyRows_def all config_session_def)
  also have "\<dots> = map numberedMessage (take 50 [1..<52])" by (simp only: take_map)
  also have "take 50 [1..<52] = [1..<51]" by (simp only: take_upt) simp
  finally show ?thesis .
qed

text \<open>
  C7. The history is meant to hold the most recent messages of the session. The query sorts
  by ascending sequence number and takes the first \<open>maxHistoryMessages\<close> rows: of a
  session with the messages 1 to 51 it returns the messages 1 to 50, and the newest
  message, number 51, is not among them.
\<close>

theorem loadConversationHistory_takes_oldest:
  "map m_sequenceNumber (sessionMessages longSession 20) = map int [1..<52] \<and>
   fst (loadConversationHistory 20 longSession)
     = Inr (map (\<lambda>i. \<lparr> cm_role = (if even i then assistant else user),
                          cm_content = Text (replicate i (CHR ''x'')),
                          cm_toolCalls = None, cm_toolResults = None \<rparr>) [1..<51]) \<and>
   map m_sequenceNumber (historyRows longSession 20) = map int [1..<51] \<and>
   51 \<notin> set (map m_sequenceNumber (historyRows longSession 20))"
proof -
  have a: "map m_sequenceNumber (sessionMessages longSession 20) = map int [1..<52]"
    by (simp add: sessionMessages_def longSession_def numberedMessage_def filter_map o_def)
  have b: "map m_sequenceNumber (historyRows longSession 20) = map int [1..<51]"
    by (simp add: historyRows_longSession numberedMessage_def o_def)
  have c: "fst (loadConversationHistory 20 longSession)
     = Inr (map (\<lambda>i. \<lparr> cm_role = (if even i then assistant else user),
                          cm_content = Text (replicate i (CHR ''x'')),
                          cm_toolCalls = None, cm_toolResults = None \<rparr>) [1..<51])"
  proof -
    have "mapResult toConversationMessage (map numberedMessage [1..<51])
       = Inr (map (\<lambda>m. \<lparr> cm_role = roleToLowerCase (m_role m), cm_content = m_content m,
                          cm_toolCalls = None, cm_toolResults = None \<rparr>)
                (map numberedMessage [1..<51]))"
      by (rule mapResult_map) (auto simp: toConversationMessage_def numberedMessage_def)
    then show ?thesis
      by (simp add: loadConversationHistory_def historyRows_longSession numberedMessage_def o_def
          if_distrib cong: if_cong)
  qed
  have d: "51 \<notin> set (map m_sequenceNumber (historyRows longSession 20))"
    unfolding b by auto
  from a b c d show ?thesis by (intro conjI)
qed


section \<open>Properties of the message pipeline\<close>

subsection \<open>Running actions one after the other\<close>


subsection \<open>Allocating a sequence number and inserting the row\<close>

lemma get_next_message_sequence_cong:
  "tbl_messages st' = tbl_messages st \<Longrightarrow>
     get_next_message_sequence st' sid = get_next_message_sequence st sid"
  by (simp add: get_next_message_sequence_def sessionMessages_def)

lemma next_after_append:
  assumes "m_sessionId row = sid" "m_sequenceNumber row = get_next_message_sequence st sid"
    and "tbl_messages st' = tbl_messages st @ [row]"
  shows "get_next_message_sequence st' sid = get_next_message_sequence st sid + 1"
proof -
  have le: "m_sequenceNumber m \<le> m_sequenceNumber row"
    if "m \<in> set (sessionMessages st' sid)" for m
  proof (cases "m = row")
    case True then show ?thesis by simp
  next
    case False
    with that assms(3) have "m \<in> set (tbl_messages st)" "m_sessionId m = sid"
      by (auto simp: sessionMessages_def split: if_splits)
    from below_next_sequence [OF this] assms(2) show ?thesis by simp
  qed
  have mem: "row \<in> set (sessionMessages st' sid)"
    using assms by (simp add: sessionMessages_def)
  then have ne: "sessionMessages st' sid \<noteq> []" by auto
  have "Max (set (sessionSequence st' sid)) = m_sequenceNumber row"
  proof (rule Max_eqI)
    show "finite (set (sessionSequence st' sid))" by simp
    show "m_sequenceNumber row \<in> set (sessionSequence st' sid)"
      using mem by (simp add: sessionSequence_def)
    show "y \<le> m_sequenceNumber row" if "y \<in> set (sessionSequence st' sid)" for y
      using that le by (auto simp: sessionSequence_def)
  qed
  with ne assms(2) show ?thesis
    by (simp add: get_next_message_sequence_Max)
qed

text \<open>
  The row that \<^verbatim>\<open>getNextSequenceNumber\<close> followed by \<^verbatim>\<open>message.create\<close> stores.
\<close>

lemma allocate_then_create:
  "bindM (getNextSequenceNumber sid) (\<lambda>n.
     bindM (message_create \<lparr> md_sessionId = sid, md_sequenceNumber = n,
                             md_idempotencyKey = key, md_role = role, md_content = content,
                             md_toolCalls = toolCalls, md_providerCallId = pcid \<rparr>) f) st =
   (if key \<noteq> None \<and>
       (\<exists>m \<in> set (tbl_messages st). m_sessionId m = sid \<and> m_idempotencyKey m = key)
    then (Inl (PrismaUniqueViolation ''messages_sessionId_idempotencyKey_key''), st)
    else f (messageRow (nextId st)
              \<lparr> md_sessionId = sid, md_sequenceNumber = get_next_message_sequence st sid,
                md_idempotencyKey = key, md_role = role, md_content = content,
                md_toolCalls = toolCalls, md_providerCallId = pcid \<rparr>)
           (st\<lparr> tbl_messages := tbl_messages st @
                  [messageRow (nextId st)
                     \<lparr> md_sessionId = sid, md_sequenceNumber = get_next_message_sequence st sid,
                       md_idempotencyKey = key, md_role = role, md_content = content,
                       md_toolCalls = toolCalls, md_providerCallId = pcid \<rparr>],
                nextId := nextId st + 1 \<rparr>))"
proof -
  let ?d = "\<lparr> md_sessionId = sid, md_sequenceNumber = 0,
              md_idempotencyKey = key, md_role = role, md_content = content,
              md_toolCalls = toolCalls, md_providerCallId = pcid \<rparr>"
  have "bindM (getNextSequenceNumber sid) (\<lambda>n.
     bindM (message_create \<lparr> md_sessionId = sid, md_sequenceNumber = n,
                             md_idempotencyKey = key, md_role = role, md_content = content,
                             md_toolCalls = toolCalls, md_providerCallId = pcid \<rparr>) f) st
      = bindM (allocateAndInsert ?d) f st"
    by (simp add: allocateAndInsert_def bindM_def getNextSequenceNumber_def)
  also have "\<dots> = (case allocateAndInsert ?d st of
        (Inl e, st1) \<Rightarrow> (Inl e, st1) | (Inr x, st1) \<Rightarrow> f x st1)"
    by (simp add: bindM_def)
  finally have eq: "bindM (getNextSequenceNumber sid) (\<lambda>n.
     bindM (message_create \<lparr> md_sessionId = sid, md_sequenceNumber = n,
                             md_idempotencyKey = key, md_role = role, md_content = content,
                             md_toolCalls = toolCalls, md_providerCallId = pcid \<rparr>) f) st
      = (case allocateAndInsert ?d st of
        (Inl e, st1) \<Rightarrow> (Inl e, st1) | (Inr x, st1) \<Rightarrow> f x st1)" .
  show ?thesis unfolding eq
    by (subst allocateAndInsert_result) auto
qed

subsection \<open>The orchestrator always answers\<close>

lemma executeWithResilience_answers:
  "\<exists>result k. executeWithResilience env request cfg calls
       = (Inr result, calls @ primaryProvider cfg # k)"
proof -
  let ?P = "primaryProvider cfg"
  let ?rs0 = "\<lparr> rs_attemptNumber = 0, rs_errors = [] \<rparr>"
  have le1: "(1::nat) \<le> maxAttempts config_retry" by (simp add: config_retry_def)
  obtain r1 rs1 c1 where p1: "executeWithRetry env request ?P ?rs0 False calls = (r1, rs1, c1)"
    by (cases "executeWithRetry env request ?P ?rs0 False calls") auto
  from executeWithRetry_calls [OF p1]
  obtain k1 where k1: "c1 = calls @ replicate k1 ?P" "1 \<le> k1" by auto
  then obtain j where j: "c1 = calls @ ?P # replicate j ?P"
    by (cases k1) auto
  have failed: "\<exists>r. allAttemptsFailed cfg rs = Inr r" if "rs_errors rs \<noteq> []" for rs
    using that by (cases "rs_errors rs") (auto simp: allAttemptsFailed_def split: prod.splits)
  show ?thesis
  proof (cases "success r1")
    case True
    with p1 j show ?thesis by (simp add: executeWithResilience_def)
  next
    case False
    from p1 have "executeWithRetry_from 1 env request ?P False ?rs0 calls = (r1, rs1, c1)"
      by (simp add: executeWithRetry_def)
    from executeWithRetry_from_failure [OF this le1 False]
    have e1: "rs_errors rs1 \<noteq> []" by blast
    show ?thesis
    proof (cases "fallbackProvider cfg = None \<or> fallbackProvider cfg = Some ?P")
      case True
      with p1 False have "executeWithResilience env request cfg calls
          = (allAttemptsFailed cfg rs1, c1)"
        by (auto simp: executeWithResilience_def)
      with failed [OF e1] j show ?thesis by auto
    next
      case nofb: False
      then obtain fb where fb: "fallbackProvider cfg = Some fb" "fb \<noteq> ?P"
        by (cases "fallbackProvider cfg") auto
      obtain r2 rs2 c2 where p2: "executeWithRetry env request fb rs1 True c1 = (r2, rs2, c2)"
        by (cases "executeWithRetry env request fb rs1 True c1") auto
      from executeWithRetry_calls [OF p2]
      obtain k2 where k2: "c2 = c1 @ replicate k2 fb" by auto
      with j have c2: "c2 = calls @ ?P # (replicate j ?P @ replicate k2 fb)" by simp
      show ?thesis
      proof (cases "success r2")
        case True
        with p1 p2 False fb c2 show ?thesis by (simp add: executeWithResilience_def)
      next
        case f2: False
        from p2 have "executeWithRetry_from 1 env request fb True rs1 c1 = (r2, rs2, c2)"
          by (simp add: executeWithRetry_def)
        from executeWithRetry_from_failure [OF this le1 f2]
        have "rs_errors rs2 \<noteq> []" by blast
        from failed [OF this] obtain r where "allAttemptsFailed cfg rs2 = Inr r" ..
        with p1 p2 False f2 fb c2 show ?thesis by (simp add: executeWithResilience_def)
      qed
    qed
  qed
qed

text \<open>
  Steps 6 and 7 always succeed: at least one adapter call is made and exactly one provider
  call record is stored; nothing else changes.
\<close>

lemma callProvider_effect:
  "\<exists>result more.
     callProvider w sessionId correlationId agent request st =
       (Inr (result, providerCallRow (nextId st) sessionId correlationId result),
        st\<lparr> adapterCalls := adapterCalls st @ ag_primaryProvider agent # more,
            tbl_providerCalls := tbl_providerCalls st @
               [providerCallRow (nextId st) sessionId correlationId result],
            nextId := nextId st + 1 \<rparr>)"
proof -
  let ?cfg = "\<lparr> primaryProvider = ag_primaryProvider agent,
                 fallbackProvider = ag_fallbackProvider agent,
                 oc_correlationId = Some correlationId \<rparr>"
  from executeWithResilience_answers [of "orchestratorEnv w" request ?cfg "adapterCalls st"]
  obtain result more where
    r: "executeWithResilience (orchestratorEnv w) request ?cfg (adapterCalls st)
          = (Inr result, adapterCalls st @ ag_primaryProvider agent # more)"
    by auto
  show ?thesis
    by (rule exI [of _ result], rule exI [of _ more])
      (simp add: callProvider_def bindM_def runOrchestrator_def r providerCall_create_def
        returnM_def)
qed


subsection \<open>Tool calls\<close>

lemma executeToolCall_effect:
  "snd (executeToolCall w toolCall agent context st)
      = st\<lparr> tbl_toolExecutions :=
            tbl_toolExecutions (snd (executeToolCall w toolCall agent context st)) \<rparr>"
  by (simp add: executeToolCall_def toolRegistry_execute_def
      split: option.splits ToolOutcome.splits)

lemma executeToolCall_id: "tr_id (fst (executeToolCall w toolCall agent context st)) = tc_id toolCall"
  by (simp add: executeToolCall_def split: prod.splits sum.splits)

lemma executeToolCalls_effect:
  "snd (executeToolCalls w toolCalls agent context st)
      = st\<lparr> tbl_toolExecutions :=
            tbl_toolExecutions (snd (executeToolCalls w toolCalls agent context st)) \<rparr>"
proof (induction toolCalls arbitrary: st)
  case Nil
  show ?case by simp
next
  case (Cons toolCall rest)
  let ?s1 = "snd (executeToolCall w toolCall agent context st)"
  let ?s2 = "snd (executeToolCalls w rest agent context ?s1)"
  have "?s2 = ?s1\<lparr> tbl_toolExecutions := tbl_toolExecutions ?s2 \<rparr>"
    by (rule Cons.IH)
  also have "\<dots> = st\<lparr> tbl_toolExecutions := tbl_toolExecutions ?s2 \<rparr>"
    by (subst executeToolCall_effect) simp
  finally show ?case by (simp add: split_beta)
qed

lemma executeToolCalls_ids:
  "map tr_id (fst (executeToolCalls w toolCalls agent context st)) = map tc_id toolCalls"
  by (induction toolCalls arbitrary: st) (simp_all add: split_beta executeToolCall_id)

lemma toolRows_props:
  "length (toolRows sid results n i) = length results"
  "map m_role (toolRows sid results n i) = replicate (length results) TOOL"
  "map m_content (toolRows sid results n i) = map Json results"
  "map m_sessionId (toolRows sid results n i) = replicate (length results) sid"
  "map m_sequenceNumber (toolRows sid results n i) = map (\<lambda>k. n + int k) [0..<length results]"
proof (induction results arbitrary: n i)
  case Nil
  {
    case 1 show ?case by simp
  next
    case 2 show ?case by simp
  next
    case 3 show ?case by simp
  next
    case 4 show ?case by simp
  next
    case 5 show ?case by simp
  }
next
  case (Cons r rs)
  {
    case 1 show ?case by (simp add: Cons.IH)
  next
    case 2 show ?case by (simp add: Cons.IH messageRow_def)
  next
    case 3 show ?case by (simp add: Cons.IH messageRow_def)
  next
    case 4 show ?case by (simp add: Cons.IH messageRow_def)
  next
    case 5
    have "map (\<lambda>k. n + int k) [0..<length (r # rs)]
        = n # map (\<lambda>k. n + 1 + int k) [0..<length rs]"
      by (simp add: upt_conv_Cons map_Suc_upt [symmetric] del: upt_Suc)
    then show ?case by (simp add: Cons.IH messageRow_def)
  }
qed

lemma storeToolResults_effect:
  "storeToolResults sid results st =
     (Inr (), st\<lparr> tbl_messages := tbl_messages st @
                     toolRows sid results (get_next_message_sequence st sid) (nextId st),
                   nextId := nextId st + length results \<rparr>)"
proof (induction results arbitrary: st)
  case Nil
  show ?case by (simp add: returnM_def)
next
  case (Cons r rs)
  let ?row = "messageRow (nextId st)
     \<lparr> md_sessionId = sid, md_sequenceNumber = get_next_message_sequence st sid,
       md_idempotencyKey = None, md_role = TOOL, md_content = Json r, md_toolCalls = None,
       md_providerCallId = None \<rparr>"
  let ?st1 = "st\<lparr> tbl_messages := tbl_messages st @ [?row], nextId := nextId st + 1 \<rparr>"
  have "storeToolResults sid (r # rs) st = storeToolResults sid rs ?st1"
    by (simp add: allocate_then_create)
  also have "\<dots> = (Inr (), ?st1\<lparr> tbl_messages := tbl_messages ?st1 @
                     toolRows sid rs (get_next_message_sequence ?st1 sid) (nextId ?st1),
                   nextId := nextId ?st1 + length rs \<rparr>)"
    by (rule Cons.IH)
  also have "get_next_message_sequence ?st1 sid = get_next_message_sequence st sid + 1"
    by (rule next_after_append [where row = ?row]) (simp_all add: messageRow_def)
  finally show ?case by simp
qed

subsection \<open>Reading the history\<close>

lemma mapResult_Inr:
  "(\<And>x. x \<in> set xs \<Longrightarrow> \<exists>y. f x = Inr y) \<Longrightarrow> \<exists>ys. mapResult f xs = Inr ys"
proof (induction xs)
  case Nil
  show ?case by simp
next
  case (Cons x xs)
  from Cons.prems [of x] obtain y where "f x = Inr y" by auto
  moreover from Cons.IH Cons.prems obtain ys where "mapResult f xs = Inr ys" by auto
  ultimately show ?case by simp
qed

lemma historyRows_subset: "set (historyRows st sid) \<subseteq> set (sessionMessages st sid)"
proof -
  have "set (historyRows st sid) \<subseteq> set (sort_key m_sequenceNumber (sessionMessages st sid))"
    unfolding historyRows_def by (rule set_take_subset)
  then show ?thesis by simp
qed

lemma loadConversationHistory_succeeds:
  assumes "toolMessagesHoldJson st sid"
  shows "\<exists>history. loadConversationHistory sid st = (Inr history, st)"
proof -
  have "\<exists>y. toConversationMessage m = Inr y" if "m \<in> set (historyRows st sid)" for m
  proof -
    from that historyRows_subset have "m \<in> set (sessionMessages st sid)" by blast
    with assms have "m_role m = TOOL \<longrightarrow> isJson (m_content m)"
      by (simp add: toolMessagesHoldJson_def)
    then show ?thesis
      by (cases "m_content m") (auto simp: toConversationMessage_def Let_def)
  qed
  from mapResult_Inr [of "historyRows st sid" toConversationMessage, OF this]
  show ?thesis by (auto simp: loadConversationHistory_def)
qed


lemma toolMessagesHoldJson_append:
  assumes "toolMessagesHoldJson st sid"
    and "tbl_messages st' = tbl_messages st @ rows"
    and "\<And>m. m \<in> set rows \<Longrightarrow> m_role m = TOOL \<Longrightarrow> isJson (m_content m)"
  shows "toolMessagesHoldJson st' sid"
  using assms by (auto simp: toolMessagesHoldJson_def sessionMessages_def)

lemma toolRows_hold_json:
  "m \<in> set (toolRows sid results n i) \<Longrightarrow> isJson (m_content m)"
proof -
  assume "m \<in> set (toolRows sid results n i)"
  then have "m_content m \<in> set (map m_content (toolRows sid results n i))" by simp
  then have "m_content m \<in> set (map Json results)" by (simp only: toolRows_props)
  then show ?thesis by auto
qed

subsection \<open>The tool round\<close>


lemma toolRun_length:
  "length (fst (toolRun w tenantId sessionId correlationId agent resp providerCall toolCalls st))
     = length toolCalls"
  using executeToolCalls_ids [THEN arg_cong, of length]
  by (simp add: toolRun_def)

text \<open>
  The first half of the tool round cannot fail: it stores the interim assistant message
  and one \<^verbatim>\<open>TOOL\<close> message per tool call, and hands over to the follow-up call.
\<close>

lemma toolRound_prefix:
  "toolRound w tenantId sessionId correlationId agent resp providerCall toolCalls st =
     followUp w sessionId correlationId agent
       (afterToolMessages w tenantId sessionId correlationId agent resp providerCall toolCalls st)"
proof -
  define interim where "interim = interimRow st sessionId resp providerCall toolCalls"
  define st1 where "st1 = st\<lparr> tbl_messages := tbl_messages st @ [interim], nextId := nextId st + 1 \<rparr>"
  define run where "run = toolRun w tenantId sessionId correlationId agent resp providerCall toolCalls st"
  let ?results = "fst run"
  let ?st2 = "snd run"
  have run: "run = executeToolCalls w toolCalls agent
       \<lparr> ctx_tenantId = tenantId, ctx_sessionId = sessionId, ctx_correlationId = correlationId \<rparr> st1"
    by (simp add: run_def toolRun_def st1_def interim_def)
  have len: "length ?results = length toolCalls"
    unfolding run_def by (rule toolRun_length)
  have st2: "?st2 = st1\<lparr> tbl_toolExecutions := tbl_toolExecutions ?st2 \<rparr>"
    unfolding run by (rule executeToolCalls_effect)
  have n1: "get_next_message_sequence st1 sessionId = get_next_message_sequence st sessionId + 1"
    by (rule next_after_append [where row = interim])
      (simp_all add: st1_def interim_def interimRow_def messageRow_def)
  have n2: "get_next_message_sequence ?st2 sessionId = get_next_message_sequence st sessionId + 1"
    by (subst st2) (simp add: get_next_message_sequence_cong [of _ st1] n1)
  have m2: "tbl_messages ?st2 = tbl_messages st @ [interim]"
    by (subst st2) (simp add: st1_def)
  have i2: "nextId ?st2 = nextId st + 1"
    by (subst st2) (simp add: st1_def)
  let ?st3 = "?st2\<lparr> tbl_messages := tbl_messages ?st2 @
       toolRows sessionId ?results (get_next_message_sequence ?st2 sessionId) (nextId ?st2),
       nextId := nextId ?st2 + length ?results \<rparr>"
  have st3: "?st3 = afterToolMessages w tenantId sessionId correlationId agent resp providerCall
                      toolCalls st"
    unfolding afterToolMessages_def run_def [symmetric] interim_def [symmetric]
    apply (simp add: n2 i2 len m2)
    apply (subst (1) st2)
    apply (simp add: st1_def)
    done
  have store: "storeToolResults sessionId ?results ?st2 =
      (Inr (), afterToolMessages w tenantId sessionId correlationId agent resp providerCall
                      toolCalls st)"
    unfolding st3 [symmetric] by (rule storeToolResults_effect)
  have exec: "liftM (executeToolCalls w toolCalls agent
                     \<lparr> ctx_tenantId = tenantId, ctx_sessionId = sessionId,
                       ctx_correlationId = correlationId \<rparr>) st1 = (Inr ?results, ?st2)"
    by (simp add: run liftM_def split_beta)
  show ?thesis
    unfolding toolRound_def followUp_def
    apply (subst allocate_then_create)
    apply (simp only: simp_thms if_False)
    apply (fold interimRow_def)
    apply (fold interim_def)
    apply (fold st1_def)
    apply (simp only: bindM_def exec store prod.case sum.case)
    done
qed

lemma afterToolMessages_json:
  assumes "toolMessagesHoldJson st sessionId"
  shows "toolMessagesHoldJson
           (afterToolMessages w tenantId sessionId correlationId agent resp providerCall toolCalls st)
           sessionId"
proof (rule toolMessagesHoldJson_append [OF assms])
  show "tbl_messages (afterToolMessages w tenantId sessionId correlationId agent resp providerCall
           toolCalls st) = tbl_messages st @
            interimRow st sessionId resp providerCall toolCalls #
            toolRows sessionId
              (fst (toolRun w tenantId sessionId correlationId agent resp providerCall toolCalls st))
              (get_next_message_sequence st sessionId + 1) (nextId st + 1)"
    by (simp add: afterToolMessages_def)
next
  fix m
  assume "m \<in> set (interimRow st sessionId resp providerCall toolCalls #
            toolRows sessionId
              (fst (toolRun w tenantId sessionId correlationId agent resp providerCall toolCalls st))
              (get_next_message_sequence st sessionId + 1) (nextId st + 1))"
    and tool: "m_role m = TOOL"
  then consider "m = interimRow st sessionId resp providerCall toolCalls"
    | "m \<in> set (toolRows sessionId
              (fst (toolRun w tenantId sessionId correlationId agent resp providerCall toolCalls st))
              (get_next_message_sequence st sessionId + 1) (nextId st + 1))"
    by auto
  then show "isJson (m_content m)"
  proof cases
    case 1 with tool show ?thesis by (simp add: interimRow_def messageRow_def)
  next
    case 2 then show ?thesis by (rule toolRows_hold_json)
  qed
qed

text \<open>
  The follow-up call: when the history can be read, the provider is called and its record
  stored; the only error left is that of a failed provider call.
\<close>

lemma followUp_effect:
  assumes "toolMessagesHoldJson st sessionId"
  shows "\<exists>finalResult more.
     followUp w sessionId correlationId agent st =
       (fst (bindM (responseOrThrow ''Failed to get final response from AI provider'' finalResult)
               (\<lambda>finalResponse. returnM (finalResponse,
                   providerCallRow (nextId st) sessionId correlationId finalResult)) st),
        st\<lparr> adapterCalls := adapterCalls st @ ag_primaryProvider agent # more,
            tbl_providerCalls := tbl_providerCalls st @
               [providerCallRow (nextId st) sessionId correlationId finalResult],
            nextId := nextId st + 1 \<rparr>)"
proof -
  from loadConversationHistory_succeeds [OF assms]
  obtain history where load: "loadConversationHistory sessionId st = (Inr history, st)"
    by blast
  from callProvider_effect [of w sessionId correlationId agent
      "buildProviderRequest agent history ''''" st]
  obtain finalResult more where call:
    "callProvider w sessionId correlationId agent (buildProviderRequest agent history '''') st =
       (Inr (finalResult, providerCallRow (nextId st) sessionId correlationId finalResult),
        st\<lparr> adapterCalls := adapterCalls st @ ag_primaryProvider agent # more,
             tbl_providerCalls := tbl_providerCalls st @
               [providerCallRow (nextId st) sessionId correlationId finalResult],
             nextId := nextId st + 1 \<rparr>)"
    by blast
  let ?st4 = "st\<lparr> adapterCalls := adapterCalls st @ ag_primaryProvider agent # more,
             tbl_providerCalls := tbl_providerCalls st @
               [providerCallRow (nextId st) sessionId correlationId finalResult],
             nextId := nextId st + 1 \<rparr>"
  let ?tail = "bindM (responseOrThrow ''Failed to get final response from AI provider'' finalResult)
       (\<lambda>finalResponse. returnM (finalResponse,
           providerCallRow (nextId st) sessionId correlationId finalResult))"
  have "followUp w sessionId correlationId agent st = ?tail ?st4"
    unfolding followUp_def
    by (simp only: bindM_def load call prod.case sum.case)
  moreover have "snd (?tail ?st4) = ?st4"
    by (simp add: bindM_def responseOrThrow_def returnM_def throwM_def split: option.splits)
  moreover have "fst (?tail ?st4) = fst (?tail st)"
    by (simp add: bindM_def responseOrThrow_def returnM_def throwM_def split: option.splits)
  ultimately have "followUp w sessionId correlationId agent st = (fst (?tail st), ?st4)"
    by (metis prod.collapse)
  then show ?thesis by blast
qed



subsection \<open>Storing the answer and billing\<close>





subsection \<open>Rows are kept\<close>





lemma keepsRows_tables:
  "tbl_messages st' = tbl_messages st \<Longrightarrow> tbl_providerCalls st' = tbl_providerCalls st \<Longrightarrow>
     keepsRows st st'"
  by (simp add: keepsRows_def)




















subsection \<open>The answer of a message without tool calls\<close>










subsection \<open>Looking a stored answer up by its key\<close>




subsection \<open>Sending a message twice\<close>



subsection \<open>Sample runs\<close>

lemmas pipeline_eval = sendMessage_def idempotencyPreCheck_def findByIdempotencyKey_def
  withSessionLock_def processMessage_def runConversation_def finishMessage_def toolRound_def
  callProvider_def runOrchestrator_def responseOrThrow_def bindM_def returnM_def throwM_def
  getSessionWithAgent_def loadConversationHistory_def historyRows_def sessionMessages_def
  toConversationMessage_def buildProviderRequest_def getNextSequenceNumber_def
  get_next_message_sequence_def message_create_def providerCall_create_def
  createUsageEvent_def includeProviderCall_def config_session_def liftM_def readM_def
  messageRow_def providerCallRow_def

lemmas sample_eval = sampleAgent_def sampleSession_def freshState_def sampleWorld_def helloK_def
  plainAnswer_def

lemma afterProviderFailure_eq:
  "sendMessage (sampleWorld failingEnv) 1 20 helloK freshState =
     (Inl (ValidationError ''VendorA internal server error''),
      freshState\<lparr> tbl_messages :=
          [\<lparr> m_id = 100, m_sessionId = 20, m_sequenceNumber = 1, m_idempotencyKey = Some ''K'',
             m_role = USER, m_content = Text ''hello'', m_toolCalls = None,
             m_providerCallId = None \<rparr>],
        tbl_providerCalls :=
          [\<lparr> pc_id = 101, pc_sessionId = 20, pc_correlationId = ''corr_1'',
             pc_provider = VENDOR_B, pc_isFallback = True, pc_tokensIn = 0, pc_tokensOut = 0,
             pc_latencyMs = 0, pc_status = FAILED, pc_errorCode = Some ''PROVIDER_ERROR'',
             pc_errorMessage = Some ''VendorA internal server error'', pc_attemptNumber = 6,
             pc_billed = False \<rparr>],
        nextId := 102,
        adapterCalls := [VENDOR_A, VENDOR_A, VENDOR_A, VENDOR_B, VENDOR_B, VENDOR_B],
        lockLog := [LockAcquired 20, LockReleased 20] \<rparr>)"
  by (simp add: pipeline_eval sample_eval orchestrator_eval)

lemmas answered_eval = answeredState_def assistantReply_def fallbackCall_def

lemma afterSuccess_eq:
  "sendMessage (sampleWorld primaryDownEnv) 1 20
      \<lparr> in_content = ''hello'', in_idempotencyKey = key, in_correlationId = Some ''corr_1'' \<rparr>
      freshState =
     (Inr (formatMessageResponse (assistantReply, Some fallbackCall)), answeredState key)"
  by (cases key) (simp_all add: pipeline_eval sample_eval orchestrator_eval double_eval calculateCost_def
      getPricingSnapshot_def answered_eval)






text \<open>
  C2. When both vendors fail, \<^const>\<open>sendMessage\<close> ends with the error that the orchestrator
  reported: no assistant message is stored, the user's message stays with its key, the
  failed provider call is recorded and the lock is released. The error is thrown as a
  \<^verbatim>\<open>ValidationError\<close>, though, so the caller is answered \<^verbatim>\<open>VALIDATION_ERROR\<close>, 400,
  and not a provider error.
\<close>

theorem sendMessage_provider_failure_is_validation_error:
  "fst (sendMessage (sampleWorld failingEnv) 1 20 helloK freshState)
     = Inl (ValidationError ''VendorA internal server error'') \<and>
   errorResponse (ValidationError ''VendorA internal server error'') = (''VALIDATION_ERROR'', 400) \<and>
   map (\<lambda>m. (m_role m, m_idempotencyKey m)) (tbl_messages afterProviderFailure)
     = [(USER, Some ''K'')] \<and>
   map pc_status (tbl_providerCalls afterProviderFailure) = [FAILED] \<and>
   sessionLocks afterProviderFailure (uuidToLockKey (sampleWorld failingEnv) 20) = None \<and>
   lockLog afterProviderFailure = [LockAcquired 20, LockReleased 20]"
  unfolding afterProviderFailure_def afterProviderFailure_eq
  by (simp add: sample_eval)

text \<open>
  C8. The insert of the user's message is not guarded. When the key is stored already, for
  a retry after a provider failure as well as for a second caller that passed the check of
  step 1 before the first one stored its rows, the unique violation leaves
  \<^const>\<open>sendMessage\<close> as it is and the caller is answered \<^verbatim>\<open>INTERNAL_ERROR\<close>, 500; in
  the second case the check of step 1, run again, would find the stored answer.
\<close>

theorem sendMessage_duplicate_key_surfaces_unique_violation:
  "fst (sendMessage (sampleWorld primaryDownEnv) 1 20 helloK afterProviderFailure)
     = Inl (PrismaUniqueViolation ''messages_sessionId_idempotencyKey_key'') \<and>
   errorResponse (PrismaUniqueViolation ''messages_sessionId_idempotencyKey_key'')
     = (''INTERNAL_ERROR'', 500) \<and>
   idempotencyPreCheck freshState 20 helloK = None \<and>
   snd (sendMessage (sampleWorld primaryDownEnv) 1 20 helloK freshState) = answeredState (Some ''K'') \<and>
   idempotencyPreCheck (answeredState (Some ''K'')) 20 helloK
     = Some (assistantReply, Some fallbackCall) \<and>
   fst (withSessionLock (uuidToLockKey (sampleWorld primaryDownEnv) 20)
          (processMessage (sampleWorld primaryDownEnv) 1 20 helloK ''corr_2'')
          (answeredState (Some ''K'')))
     = Inl (PrismaUniqueViolation ''messages_sessionId_idempotencyKey_key'')"
proof -
  have a: "fst (sendMessage (sampleWorld primaryDownEnv) 1 20 helloK afterProviderFailure)
     = Inl (PrismaUniqueViolation ''messages_sessionId_idempotencyKey_key'')"
    unfolding afterProviderFailure_def afterProviderFailure_eq
    by (simp add: pipeline_eval sample_eval orchestrator_eval)
  have b: "idempotencyPreCheck freshState 20 helloK = None"
    by (simp add: pipeline_eval sample_eval)
  have c: "snd (sendMessage (sampleWorld primaryDownEnv) 1 20 helloK freshState)
             = answeredState (Some ''K'')"
    unfolding helloK_def afterSuccess_eq by simp
  have d: "idempotencyPreCheck (answeredState (Some ''K'')) 20 helloK
     = Some (assistantReply, Some fallbackCall)"
    by (simp add: pipeline_eval sample_eval answered_eval)
  have e: "fst (withSessionLock (uuidToLockKey (sampleWorld primaryDownEnv) 20)
          (processMessage (sampleWorld primaryDownEnv) 1 20 helloK ''corr_2'')
          (answeredState (Some ''K'')))
     = Inl (PrismaUniqueViolation ''messages_sessionId_idempotencyKey_key'')"
    by (simp add: pipeline_eval sample_eval answered_eval)
  from a b c d e show ?thesis by simp
qed

subsection \<open>Failing tools\<close>

lemma executeToolCall_cases:
  "(toolRegistry w (tc_name toolCall) = None \<longrightarrow>
      fst (executeToolCall w toolCall agent ctx s) =
        failedResult toolCall (''Tool '' @ [CHR 0x27] @ tc_name toolCall @ [CHR 0x27] @ '' not found'')) \<and>
   (\<forall>t. toolRegistry w (tc_name toolCall) = Some t \<longrightarrow>
      (if tc_name toolCall \<notin> set (ag_enabledTools agent) then
         fst (executeToolCall w toolCall agent ctx s) =
           failedResult toolCall (''Tool '' @ [CHR 0x27] @ tc_name toolCall @ [CHR 0x27]
                                    @ '' is not enabled for this agent'')
       else
         (case tool_execute t (tc_args toolCall) ctx (length (tbl_toolExecutions s)) of
            Resolved out \<Rightarrow>
              fst (executeToolCall w toolCall agent ctx s) =
                \<lparr> tr_id = tc_id toolCall,
                  tr_result = (if to_success out then to_data out else None),
                  tr_error = to_error out \<rparr>
          | Rejected message \<Rightarrow>
              fst (executeToolCall w toolCall agent ctx s) = failedResult toolCall message
          | RejectedTimeoutError message \<Rightarrow>
              fst (executeToolCall w toolCall agent ctx s) = failedResult toolCall message
          | RejectedNonError \<Rightarrow>
              fst (executeToolCall w toolCall agent ctx s) = failedResult toolCall ''Unknown error''
          | TimedOut \<Rightarrow>
              fst (executeToolCall w toolCall agent ctx s) =
                failedResult toolCall (''Tool '' @ [CHR 0x27] @ tc_name toolCall @ [CHR 0x27]
                                         @ '' timed out''))))"
  by (simp add: executeToolCall_def toolRegistry_execute_def failedResult_def
      split: ToolOutcome.splits)

text \<open>
  The result at position \<open>i\<close> is the one of the \<open>i\<close>-th tool call, run in the state that
  the calls before it have left.
\<close>

lemma executeToolCalls_nth:
  "i < length toolCalls \<Longrightarrow>
     fst (executeToolCalls w toolCalls agent ctx s) ! i =
       fst (executeToolCall w (toolCalls ! i) agent ctx
              (snd (executeToolCalls w (take i toolCalls) agent ctx s)))"
proof (induction toolCalls arbitrary: i s)
  case Nil
  then show ?case by simp
next
  case (Cons toolCall rest)
  show ?case
  proof (cases i)
    case 0
    then show ?thesis by (simp add: split_beta)
  next
    case (Suc j)
    with Cons.prems have "j < length rest" by simp
    from Cons.IH [OF this] Suc show ?thesis by (simp add: split_beta)
  qed
qed

lemma executeToolCalls_length:
  "length (fst (executeToolCalls w toolCalls agent ctx s)) = length toolCalls"
  using executeToolCalls_ids [of w toolCalls agent ctx s, THEN arg_cong, of length]
  by simp

lemma responseOrThrow_outcome:
  "fst (bindM (responseOrThrow fallbackText result) (\<lambda>resp. returnM (resp, row)) s) =
     (case fst (responseOrThrow fallbackText result s') of
        Inl e \<Rightarrow> Inl e
      | Inr resp \<Rightarrow> Inr (resp, row))"
  by (simp add: bindM_def responseOrThrow_def returnM_def throwM_def split: option.splits)

text \<open>
  C10. Whatever its tool calls do, \<^const>\<open>executeToolCalls\<close> returns one result per call, in
  the order of the calls, and the result of a call that fails has no data and the message
  of the error: for a tool that is not registered, a tool that the agent has not enabled,
  a timeout and a rejection. \<^const>\<open>toolRound\<close> stores these results, one \<open>TOOL\<close> message
  per call, behind the interim assistant message, calls the provider again and records
  that call; the only error it can end with is the one of a failed follow-up call. The
  \<open>TOOL\<close> messages that the session holds already are assumed to be readable.
\<close>

theorem toolRound_survives_failing_tools:
  assumes json: "toolMessagesHoldJson st sessionId"
  shows
  "length (fst (executeToolCalls w toolCalls agent ctx s)) = length toolCalls \<and>
   (\<forall>i < length toolCalls.
      (toolRegistry w (tc_name (toolCalls ! i)) = None \<longrightarrow>
         fst (executeToolCalls w toolCalls agent ctx s) ! i =
           failedResult (toolCalls ! i)
             (''Tool '' @ [CHR 0x27] @ tc_name (toolCalls ! i) @ [CHR 0x27] @ '' not found'')) \<and>
      (\<forall>t. toolRegistry w (tc_name (toolCalls ! i)) = Some t \<longrightarrow>
         (if tc_name (toolCalls ! i) \<notin> set (ag_enabledTools agent) then
            fst (executeToolCalls w toolCalls agent ctx s) ! i =
              failedResult (toolCalls ! i)
                (''Tool '' @ [CHR 0x27] @ tc_name (toolCalls ! i) @ [CHR 0x27]
                   @ '' is not enabled for this agent'')
          else
            (case tool_execute t (tc_args (toolCalls ! i)) ctx
                    (length (tbl_toolExecutions
                       (snd (executeToolCalls w (take i toolCalls) agent ctx s)))) of
               Resolved out \<Rightarrow>
                 fst (executeToolCalls w toolCalls agent ctx s) ! i =
                   \<lparr> tr_id = tc_id (toolCalls ! i),
                     tr_result = (if to_success out then to_data out else None),
                     tr_error = to_error out \<rparr>
             | Rejected message \<Rightarrow>
                 fst (executeToolCalls w toolCalls agent ctx s) ! i =
                   failedResult (toolCalls ! i) message
             | RejectedTimeoutError message \<Rightarrow>
                 fst (executeToolCalls w toolCalls agent ctx s) ! i =
                   failedResult (toolCalls ! i) message
             | RejectedNonError \<Rightarrow>
                 fst (executeToolCalls w toolCalls agent ctx s) ! i =
                   failedResult (toolCalls ! i) ''Unknown error''
             | TimedOut \<Rightarrow>
                 fst (executeToolCalls w toolCalls agent ctx s) ! i =
                   failedResult (toolCalls ! i)
                     (''Tool '' @ [CHR 0x27] @ tc_name (toolCalls ! i) @ [CHR 0x27]
                        @ '' timed out''))))) \<and>
   map m_role (toolRows sessionId results n k) = replicate (length results) TOOL \<and>
   map m_content (toolRows sessionId results n k) = map Json results \<and>
   (\<exists>finalResult more st'.
      toolRound w tenantId sessionId correlationId agent resp providerCall toolCalls st =
        ((case fst (responseOrThrow ''Failed to get final response from AI provider''
                      finalResult st') of
            Inl e \<Rightarrow> Inl e
          | Inr finalResponse \<Rightarrow>
              Inr (finalResponse,
                   providerCallRow (nextId st + 1 + length toolCalls) sessionId correlationId
                     finalResult)), st') \<and>
      tbl_messages st' =
        tbl_messages st @ interimRow st sessionId resp providerCall toolCalls #
          toolRows sessionId
            (fst (executeToolCalls w toolCalls agent
                    \<lparr> ctx_tenantId = tenantId, ctx_sessionId = sessionId,
                      ctx_correlationId = correlationId \<rparr>
                    (st\<lparr> tbl_messages := tbl_messages st @
                            [interimRow st sessionId resp providerCall toolCalls],
                         nextId := nextId st + 1 \<rparr>)))
            (get_next_message_sequence st sessionId + 1) (nextId st + 1) \<and>
      adapterCalls st' = adapterCalls st @ ag_primaryProvider agent # more \<and>
      tbl_providerCalls st' = tbl_providerCalls st @
        [providerCallRow (nextId st + 1 + length toolCalls) sessionId correlationId finalResult])"
proof -
  let ?results = "fst (executeToolCalls w toolCalls agent ctx s)"
  let ?st3 = "afterToolMessages w tenantId sessionId correlationId agent resp providerCall
                toolCalls st"
  have len: "length ?results = length toolCalls"
    by (rule executeToolCalls_length)
  have each: "\<forall>i < length toolCalls.
      (toolRegistry w (tc_name (toolCalls ! i)) = None \<longrightarrow>
         ?results ! i =
           failedResult (toolCalls ! i)
             (''Tool '' @ [CHR 0x27] @ tc_name (toolCalls ! i) @ [CHR 0x27] @ '' not found'')) \<and>
      (\<forall>t. toolRegistry w (tc_name (toolCalls ! i)) = Some t \<longrightarrow>
         (if tc_name (toolCalls ! i) \<notin> set (ag_enabledTools agent) then
            ?results ! i =
              failedResult (toolCalls ! i)
                (''Tool '' @ [CHR 0x27] @ tc_name (toolCalls ! i) @ [CHR 0x27]
                   @ '' is not enabled for this agent'')
          else
            (case tool_execute t (tc_args (toolCalls ! i)) ctx
                    (length (tbl_toolExecutions
                       (snd (executeToolCalls w (take i toolCalls) agent ctx s)))) of
               Resolved out \<Rightarrow>
                 ?results ! i =
                   \<lparr> tr_id = tc_id (toolCalls ! i),
                     tr_result = (if to_success out then to_data out else None),
                     tr_error = to_error out \<rparr>
             | Rejected message \<Rightarrow> ?results ! i = failedResult (toolCalls ! i) message
             | RejectedTimeoutError message \<Rightarrow>
                 ?results ! i = failedResult (toolCalls ! i) message
             | RejectedNonError \<Rightarrow>
                 ?results ! i = failedResult (toolCalls ! i) ''Unknown error''
             | TimedOut \<Rightarrow>
                 ?results ! i =
                   failedResult (toolCalls ! i)
                     (''Tool '' @ [CHR 0x27] @ tc_name (toolCalls ! i) @ [CHR 0x27]
                        @ '' timed out''))))"
  proof (intro allI impI)
    fix i assume "i < length toolCalls"
    from executeToolCalls_nth [OF this]
    have nth: "?results ! i = fst (executeToolCall w (toolCalls ! i) agent ctx
              (snd (executeToolCalls w (take i toolCalls) agent ctx s)))" .
    from executeToolCall_cases [of w "toolCalls ! i" agent ctx
        "snd (executeToolCalls w (take i toolCalls) agent ctx s)"]
    show "(toolRegistry w (tc_name (toolCalls ! i)) = None \<longrightarrow>
         ?results ! i =
           failedResult (toolCalls ! i)
             (''Tool '' @ [CHR 0x27] @ tc_name (toolCalls ! i) @ [CHR 0x27] @ '' not found'')) \<and>
      (\<forall>t. toolRegistry w (tc_name (toolCalls ! i)) = Some t \<longrightarrow>
         (if tc_name (toolCalls ! i) \<notin> set (ag_enabledTools agent) then
            ?results ! i =
              failedResult (toolCalls ! i)
                (''Tool '' @ [CHR 0x27] @ tc_name (toolCalls ! i) @ [CHR 0x27]
                   @ '' is not enabled for this agent'')
          else
            (case tool_execute t (tc_args (toolCalls ! i)) ctx
                    (length (tbl_toolExecutions
                       (snd (executeToolCalls w (take i toolCalls) agent ctx s)))) of
               Resolved out \<Rightarrow>
                 ?results ! i =
                   \<lparr> tr_id = tc_id (toolCalls ! i),
                     tr_result = (if to_success out then to_data out else None),
                     tr_error = to_error out \<rparr>
             | Rejected message \<Rightarrow> ?results ! i = failedResult (toolCalls ! i) message
             | RejectedTimeoutError message \<Rightarrow>
                 ?results ! i = failedResult (toolCalls ! i) message
             | RejectedNonError \<Rightarrow>
                 ?results ! i = failedResult (toolCalls ! i) ''Unknown error''
             | TimedOut \<Rightarrow>
                 ?results ! i =
                   failedResult (toolCalls ! i)
                     (''Tool '' @ [CHR 0x27] @ tc_name (toolCalls ! i) @ [CHR 0x27]
                        @ '' timed out''))))"
      unfolding nth .
  qed
  have roles: "map m_role (toolRows sessionId results n k) = replicate (length results) TOOL"
    by (simp only: toolRows_props)
  have contents: "map m_content (toolRows sessionId results n k) = map Json results"
    by (simp only: toolRows_props)
  from json have "toolMessagesHoldJson ?st3 sessionId"
    by (rule afterToolMessages_json)
  from followUp_effect [OF this, where w = w and correlationId = correlationId and agent = agent]
  obtain finalResult more where follow:
    "followUp w sessionId correlationId agent ?st3 =
       (fst (bindM (responseOrThrow ''Failed to get final response from AI provider'' finalResult)
               (\<lambda>finalResponse. returnM (finalResponse,
                   providerCallRow (nextId ?st3) sessionId correlationId finalResult)) ?st3),
        ?st3\<lparr> adapterCalls := adapterCalls ?st3 @ ag_primaryProvider agent # more,
            tbl_providerCalls := tbl_providerCalls ?st3 @
               [providerCallRow (nextId ?st3) sessionId correlationId finalResult],
            nextId := nextId ?st3 + 1 \<rparr>)"
    by blast
  let ?st4 = "?st3\<lparr> adapterCalls := adapterCalls ?st3 @ ag_primaryProvider agent # more,
            tbl_providerCalls := tbl_providerCalls ?st3 @
               [providerCallRow (nextId ?st3) sessionId correlationId finalResult],
            nextId := nextId ?st3 + 1 \<rparr>"
  have i3: "nextId ?st3 = nextId st + 1 + length toolCalls"
    by (simp add: afterToolMessages_def)
  have round: "toolRound w tenantId sessionId correlationId agent resp providerCall toolCalls st =
        ((case fst (responseOrThrow ''Failed to get final response from AI provider''
                      finalResult ?st4) of
            Inl e \<Rightarrow> Inl e
          | Inr finalResponse \<Rightarrow>
              Inr (finalResponse,
                   providerCallRow (nextId st + 1 + length toolCalls) sessionId correlationId
                     finalResult)), ?st4)"
    unfolding toolRound_prefix follow
    by (simp only: responseOrThrow_outcome [where s' = ?st4] i3)
  have msgs: "tbl_messages ?st4 =
        tbl_messages st @ interimRow st sessionId resp providerCall toolCalls #
          toolRows sessionId
            (fst (executeToolCalls w toolCalls agent
                    \<lparr> ctx_tenantId = tenantId, ctx_sessionId = sessionId,
                      ctx_correlationId = correlationId \<rparr>
                    (st\<lparr> tbl_messages := tbl_messages st @
                            [interimRow st sessionId resp providerCall toolCalls],
                         nextId := nextId st + 1 \<rparr>)))
            (get_next_message_sequence st sessionId + 1) (nextId st + 1)"
    by (simp add: afterToolMessages_def toolRun_def)
  have calls: "adapterCalls ?st4 = adapterCalls st @ ag_primaryProvider agent # more"
    by (simp add: afterToolMessages_def)
  have stored: "tbl_providerCalls ?st4 = tbl_providerCalls st @
        [providerCallRow (nextId st + 1 + length toolCalls) sessionId correlationId finalResult]"
    by (simp add: afterToolMessages_def)
  from round msgs calls stored
  have last: "\<exists>finalResult more st'.
      toolRound w tenantId sessionId correlationId agent resp providerCall toolCalls st =
        ((case fst (responseOrThrow ''Failed to get final response from AI provider''
                      finalResult st') of
            Inl e \<Rightarrow> Inl e
          | Inr finalResponse \<Rightarrow>
              Inr (finalResponse,
                   providerCallRow (nextId st + 1 + length toolCalls) sessionId correlationId
                     finalResult)), st') \<and>
      tbl_messages st' =
        tbl_messages st @ interimRow st sessionId resp providerCall toolCalls #
          toolRows sessionId
            (fst (executeToolCalls w toolCalls agent
                    \<lparr> ctx_tenantId = tenantId, ctx_sessionId = sessionId,
                      ctx_correlationId = correlationId \<rparr>
                    (st\<lparr> tbl_messages := tbl_messages st @
                            [interimRow st sessionId resp providerCall toolCalls],
                         nextId := nextId st + 1 \<rparr>)))
            (get_next_message_sequence st sessionId + 1) (nextId st + 1) \<and>
      adapterCalls st' = adapterCalls st @ ag_primaryProvider agent # more \<and>
      tbl_providerCalls st' = tbl_providerCalls st @
        [providerCallRow (nextId st + 1 + length toolCalls) sessionId correlationId finalResult]"
    by blast
  from len each roles contents last show ?thesis by (intro conjI)
qed

text \<open>
  The sample world has no tool registered: the lookup that the provider asks for fails
  with the message of the registry, its result is stored in the one \<open>TOOL\<close> message, and
  the round goes on to the follow-up call.
\<close>

theorem toolRound_survives_failing_tools_witness:
  "toolMessagesHoldJson freshState 20 \<and>
   toolRegistry (sampleWorld primaryDownEnv) (tc_name lookupCall) = None \<and>
   fst (executeToolCalls (sampleWorld primaryDownEnv) [lookupCall] sampleAgent sampleContext
          freshState) =
     [failedResult lookupCall (''Tool '' @ [CHR 0x27] @ ''InvoiceLookup'' @ [CHR 0x27]
                                 @ '' not found'')] \<and>
   (\<exists>finalResult more st'.
      toolRound (sampleWorld primaryDownEnv) 1 20 ''corr_1'' sampleAgent lookupRequest
          successfulCall [lookupCall] freshState =
        ((case fst (responseOrThrow ''Failed to get final response from AI provider''
                      finalResult st') of
            Inl e \<Rightarrow> Inl e
          | Inr finalResponse \<Rightarrow>
              Inr (finalResponse, providerCallRow 102 20 ''corr_1'' finalResult)), st') \<and>
      map (\<lambda>m. (m_role m, m_sequenceNumber m, m_content m)) (tbl_messages st') =
        [(ASSISTANT, 1, Text ''Let me look that up.''),
         (TOOL, 2, Json (failedResult lookupCall
                           (''Tool '' @ [CHR 0x27] @ ''InvoiceLookup'' @ [CHR 0x27]
                              @ '' not found'')))] \<and>
      adapterCalls st' = VENDOR_A # more \<and>
      tbl_providerCalls st' = [providerCallRow 102 20 ''corr_1'' finalResult])"
proof -
  have json: "toolMessagesHoldJson freshState 20"
    by (simp add: toolMessagesHoldJson_def sessionMessages_def freshState_def)
  have none: "toolRegistry (sampleWorld primaryDownEnv) (tc_name lookupCall) = None"
    by (simp add: sampleWorld_def)
  note all = toolRound_survives_failing_tools [OF json,
      where w = "sampleWorld primaryDownEnv" and agent = sampleAgent
        and toolCalls = "[lookupCall]"
        and tenantId = 1 and correlationId = "''corr_1''" and resp = lookupRequest
        and providerCall = successfulCall]
  have results: "fst (executeToolCalls (sampleWorld primaryDownEnv) [lookupCall] sampleAgent ctx s)
      = [failedResult lookupCall (''Tool '' @ [CHR 0x27] @ ''InvoiceLookup'' @ [CHR 0x27]
                                    @ '' not found'')]" for ctx s
  proof -
    let ?results = "fst (executeToolCalls (sampleWorld primaryDownEnv) [lookupCall] sampleAgent
                           ctx s)"
    from all [where ctx = ctx and s = s, THEN conjunct1]
    have "length ?results = 1" by simp
    moreover from all [where ctx = ctx and s = s, THEN conjunct2, THEN conjunct1, rule_format,
        of 0, THEN conjunct1] none
    have "?results ! 0 = failedResult lookupCall
        (''Tool '' @ [CHR 0x27] @ ''InvoiceLookup'' @ [CHR 0x27] @ '' not found'')"
      by (simp add: lookupCall_def)
    ultimately show ?thesis
      by (cases ?results) simp_all
  qed
  from all [where ctx = sampleContext and s = freshState and results = "[]" and n = 0 and k = 0,
      THEN conjunct2, THEN conjunct2, THEN conjunct2, THEN conjunct2]
  obtain finalResult more st' where
    round: "toolRound (sampleWorld primaryDownEnv) 1 20 ''corr_1'' sampleAgent lookupRequest
          successfulCall [lookupCall] freshState =
        ((case fst (responseOrThrow ''Failed to get final response from AI provider''
                      finalResult st') of
            Inl e \<Rightarrow> Inl e
          | Inr finalResponse \<Rightarrow>
              Inr (finalResponse,
                   providerCallRow (nextId freshState + 1 + length [lookupCall]) 20 ''corr_1''
                     finalResult)), st')"
    and msgs: "tbl_messages st' =
        tbl_messages freshState @
          interimRow freshState 20 lookupRequest successfulCall [lookupCall] #
          toolRows 20
            (fst (executeToolCalls (sampleWorld primaryDownEnv) [lookupCall] sampleAgent
                    \<lparr> ctx_tenantId = 1, ctx_sessionId = 20, ctx_correlationId = ''corr_1'' \<rparr>
                    (freshState\<lparr> tbl_messages := tbl_messages freshState @
                            [interimRow freshState 20 lookupRequest successfulCall [lookupCall]],
                         nextId := nextId freshState + 1 \<rparr>)))
            (get_next_message_sequence freshState 20 + 1) (nextId freshState + 1)"
    and calls: "adapterCalls st' =
        adapterCalls freshState @ ag_primaryProvider sampleAgent # more"
    and stored: "tbl_providerCalls st' = tbl_providerCalls freshState @
        [providerCallRow (nextId freshState + 1 + length [lookupCall]) 20 ''corr_1''
           finalResult]"
    by blast
  have id: "nextId freshState + 1 + length [lookupCall] = 102"
    by (simp add: freshState_def)
  have m: "map (\<lambda>m. (m_role m, m_sequenceNumber m, m_content m)) (tbl_messages st') =
        [(ASSISTANT, 1, Text ''Let me look that up.''),
         (TOOL, 2, Json (failedResult lookupCall
                           (''Tool '' @ [CHR 0x27] @ ''InvoiceLookup'' @ [CHR 0x27]
                              @ '' not found'')))]"
    unfolding msgs results
    by (simp add: interimRow_def messageRow_def freshState_def lookupRequest_def
        get_next_message_sequence_def sessionMessages_def)
  have c: "adapterCalls st' = VENDOR_A # more"
    using calls by (simp add: freshState_def sampleAgent_def)
  have s: "tbl_providerCalls st' = [providerCallRow 102 20 ''corr_1'' finalResult]"
    using stored by (simp add: freshState_def)
  from round [unfolded id] m c s
  have "\<exists>finalResult more st'.
      toolRound (sampleWorld primaryDownEnv) 1 20 ''corr_1'' sampleAgent lookupRequest
          successfulCall [lookupCall] freshState =
        ((case fst (responseOrThrow ''Failed to get final response from AI provider''
                      finalResult st') of
            Inl e \<Rightarrow> Inl e
          | Inr finalResponse \<Rightarrow>
              Inr (finalResponse, providerCallRow 102 20 ''corr_1'' finalResult)), st') \<and>
      map (\<lambda>m. (m_role m, m_sequenceNumber m, m_content m)) (tbl_messages st') =
        [(ASSISTANT, 1, Text ''Let me look that up.''),
         (TOOL, 2, Json (failedResult lookupCall
                           (''Tool '' @ [CHR 0x27] @ ''InvoiceLookup'' @ [CHR 0x27]
                              @ '' not found'')))] \<and>
      adapterCalls st' = VENDOR_A # more \<and>
      tbl_providerCalls st' = [providerCallRow 102 20 ''corr_1'' finalResult]"
    by (intro exI conjI)
  with json none results [of sampleContext freshState] show ?thesis by (intro conjI)
qed

end
